theory Spec2Isabelle
  imports Complex_Main "HOL-Library.Multiset"
begin

section \<open>Data model\<close>

text \<open>
  The interfaces of \<^verbatim>\<open>types.ts\<close> and \<^verbatim>\<open>index-manager.ts\<close>. \<^verbatim>\<open>Note\<close> and
  \<^verbatim>\<open>NoteMetadata\<close> share the fields path, title, tags, created and modified; they are
  the common base record here, so that a function reading only those fields applies to
  a note, to a metadata record and to an index entry alike. A \<^verbatim>\<open>Date\<close> is its
  \<^verbatim>\<open>getTime()\<close> value in milliseconds, \<^verbatim>\<open>mtimeMs\<close> is a real number, and a score
  (a JavaScript number that may carry a fractional recency term) is a real number.
  A string is the list of its characters, compared character by character;
  \<^verbatim>\<open>toLowerCase\<close>, \<^verbatim>\<open>trim\<close> and the split at white space are library functions and
  parameters of the model.
\<close>

datatype Zone = Scratchpad | Inbox | Notes | Daily | Maps | Archive

record NoteCore =
  path :: string
  title :: string
  tags :: "string list"
  created :: int
  modified :: int

record Note = NoteCore +
  content :: string
  links :: "string list"

record NoteMetadata = NoteCore +
  wordCount :: nat
  hasActionables :: bool
  linkedIssues :: "string list"
  linkedNotes :: "string list"

record IndexEntry = NoteMetadata +
  mtime :: real

text \<open>The fields \<^verbatim>\<open>notes\<close> and \<^verbatim>\<open>tags\<close> of the index are \<open>noteRecords\<close> and \<open>tagCounts\<close> here.\<close>

record MetadataIndex =
  version :: int
  lastUpdated :: int
  noteRecords :: "IndexEntry list"
  tagCounts :: "string \<rightharpoonup> nat"

datatype error =
    ENOENT
  | EOTHER
  | SyntaxError
  | TypeError
  | NoIndexToSave
  | ParserError

section \<open>The environment: file system, JSON, the injected parser\<close>

record Stats =
  mtimeMs :: real
  birthtimeMs :: real

text \<open>
  The file system as the three calls the code makes on it. Each may throw: \<open>Inl\<close>.
\<close>

record FileSystem =
  readFile :: "string \<Rightarrow> error + string"
  stat :: "string \<Rightarrow> error + Stats"
  glob :: "string \<Rightarrow> error + string list"

text \<open>
  What \<^verbatim>\<open>JSON.parse\<close> followed by the date conversion of \<^verbatim>\<open>load\<close> gives on a text:
  a \<^verbatim>\<open>SyntaxError\<close>; the value \<^verbatim>\<open>null\<close> (or another value that tests false); a value
  that tests true and whose \<^verbatim>\<open>notes\<close> is undefined or null (\<^verbatim>\<open>{}\<close>, \<^verbatim>\<open>[]\<close>,
  \<^verbatim>\<open>42\<close>), on which \<^verbatim>\<open>this.index.notes.map\<close> throws a \<^verbatim>\<open>TypeError\<close>, as every
  later read of \<^verbatim>\<open>notes.length\<close>, \<^verbatim>\<open>notes.filter\<close> or \<^verbatim>\<open>[...notes]\<close> does; or an
  index object. A value whose \<^verbatim>\<open>notes\<close> is present and is not an array of note
  records has no place in this type.
\<close>

datatype json_result = JSONSyntaxError | JSONNull | JSONNoNotes | JSONIndex MetadataIndex

text \<open>
  The library functions and the \<^verbatim>\<open>NoteParser\<close> handed to the constructors are
  parameters of the model. \<open>regexCount p s\<close> is
  \<^verbatim>\<open>(s.match(new RegExp(p, 'g')) || []).length\<close>, which throws on a malformed pattern;
  \<open>relative\<close> is \<^verbatim>\<open>path.relative\<close>; \<open>generateExcerpt\<close> is the parser's;
  \<open>toLowerCase\<close> and \<open>trim\<close> are the methods of \<^verbatim>\<open>String\<close>, and
  \<open>splitWhitespace s\<close> is \<^verbatim>\<open>s.split(/\s+/)\<close>.
\<close>

record Env =
  JSON_parse :: "string \<Rightarrow> json_result"
  JSON_stringify :: "MetadataIndex \<Rightarrow> string"
  parse :: "string \<Rightarrow> string \<Rightarrow> int \<Rightarrow> int \<Rightarrow> error + Note"
  countWords :: "string \<Rightarrow> nat"
  hasActionableMarker :: "string \<Rightarrow> bool"
  extractIssueReferences :: "string \<Rightarrow> string list"
  regexCount :: "string \<Rightarrow> string \<Rightarrow> error + nat"
  localeCompare :: "string \<Rightarrow> string \<Rightarrow> int"
  relative :: "string \<Rightarrow> string \<Rightarrow> string"
  generateExcerpt :: "string \<Rightarrow> nat \<Rightarrow> string"
  toLowerCase :: "string \<Rightarrow> string"
  splitWhitespace :: "string \<Rightarrow> string list"
  trim :: "string \<Rightarrow> string"

datatype fs_op = WriteFile string string | Rename string string

definition writeFile :: "string \<Rightarrow> string \<Rightarrow> int \<Rightarrow> FileSystem \<Rightarrow> FileSystem" where
  "writeFile p d now fs =
     fs\<lparr>readFile := (readFile fs)(p := Inr d),
        stat := (stat fs)(p := Inr \<lparr>mtimeMs = real_of_int now,
                  birthtimeMs = (case stat fs p of Inr st \<Rightarrow> birthtimeMs st
                                 | Inl e \<Rightarrow> real_of_int now)\<rparr>)\<rparr>"

fun apply_op :: "int \<Rightarrow> fs_op \<Rightarrow> FileSystem \<Rightarrow> FileSystem" where
  "apply_op now (WriteFile p d) fs = writeFile p d now fs"
| "apply_op now (Rename a b) fs =
     fs\<lparr>readFile := (readFile fs)(b := readFile fs a, a := Inl ENOENT),
        stat := (stat fs)(b := stat fs a, a := Inl ENOENT)\<rparr>"

fun apply_ops :: "int \<Rightarrow> fs_op list \<Rightarrow> FileSystem \<Rightarrow> FileSystem" where
  "apply_ops now [] fs = fs"
| "apply_ops now (op # ops) fs = apply_ops now ops (apply_op now op fs)"

text \<open>
  The states another reader of the file system can observe while one operation runs.
  \<^verbatim>\<open>writeFile\<close> opens its target truncating it and then writes the data, so the
  target is seen empty before it is seen complete; a rename replaces its target in one
  step.
\<close>

fun observable :: "int \<Rightarrow> fs_op \<Rightarrow> FileSystem \<Rightarrow> FileSystem list" where
  "observable now (WriteFile p d) fs = [writeFile p [] now fs, writeFile p d now fs]"
| "observable now (Rename a b) fs = [apply_op now (Rename a b) fs]"

fun trace :: "int \<Rightarrow> fs_op list \<Rightarrow> FileSystem \<Rightarrow> FileSystem list" where
  "trace now [] fs = []"
| "trace now (op # ops) fs = observable now op fs @ trace now ops (apply_op now op fs)"

section \<open>ZoneManager (zones.ts)\<close>

text \<open>\<^verbatim>\<open>path.join\<close> on two segments that need no normalisation.\<close>

definition join :: "string \<Rightarrow> string \<Rightarrow> string" where
  "join a b = a @ ''/'' @ b"

fun getZonePath :: "string \<Rightarrow> Zone \<Rightarrow> string" where
  "getZonePath base Scratchpad = join base ''scratch.md''"
| "getZonePath base Inbox = join base ''inbox''"
| "getZonePath base Notes = join base ''notes''"
| "getZonePath base Daily = join base ''daily''"
| "getZonePath base Maps = join base ''maps''"
| "getZonePath base Archive = join base ''archive''"

fun zonePathsOf :: "string \<Rightarrow> Zone \<Rightarrow> string list" where
  "zonePathsOf base Scratchpad = [join base ''scratch.md'']"
| "zonePathsOf base Inbox = [join (join base ''inbox'') ''quick'', join (join base ''inbox'') ''voice'']"
| "zonePathsOf base Notes = [join base ''notes'']"
| "zonePathsOf base Daily = [join base ''daily'']"
| "zonePathsOf base Maps = [join base ''maps'']"
| "zonePathsOf base Archive = [join base ''archive'']"

definition getZonePaths :: "string \<Rightarrow> Zone list \<Rightarrow> string list" where
  "getZonePaths base zones = concat (map (zonePathsOf base) zones)"

definition startsWith :: "string \<Rightarrow> string \<Rightarrow> bool" where
  "startsWith s p = (take (length p) s = p)"

definition normalizeSlashes :: "string \<Rightarrow> string" where
  "normalizeSlashes s = map (\<lambda>c. if c = CHR 0x5C then CHR ''/'' else c) s"

definition getRelativePath :: "string \<Rightarrow> string \<Rightarrow> string" where
  "getRelativePath base absolutePath =
     (let a = normalizeSlashes absolutePath; b = normalizeSlashes base in
      if startsWith a (b @ ''/'') then drop (length b + 1) a
      else if startsWith a b
        then dropWhile (\<lambda>c. c = CHR ''/'' \<or> c = CHR 0x5C) (drop (length b) a)
      else a)"

section \<open>IndexManager (index-manager.ts)\<close>

text \<open>
  The field \<^verbatim>\<open>this.index\<close> holds null, an index, or (after a failed \<^verbatim>\<open>load\<close>) a
  parsed value that tests true and is no index. \<open>index m\<close> is the index it holds, if
  it holds one; when it holds none, \<open>holdsNonIndex m\<close> says that it holds such a value
  rather than null. An assignment of an index to \<^verbatim>\<open>this.index\<close> sets \<open>index\<close>, and
  \<open>holdsNonIndex\<close> is read only where \<open>index\<close> is \<open>None\<close>.
\<close>

record IndexManager =
  basePath :: string
  index :: "MetadataIndex option"
  holdsNonIndex :: bool

definition indexPath :: "IndexManager \<Rightarrow> string" where
  "indexPath m = join (basePath m) ''.thread-stack-index.json''"

definition emptyIndex :: "int \<Rightarrow> MetadataIndex" where
  "emptyIndex now = \<lparr>version = 1, lastUpdated = now, noteRecords = [], tagCounts = Map.empty\<rparr>"

text \<open>
  \<^verbatim>\<open>load\<close> can throw after it has assigned \<^verbatim>\<open>this.index\<close>, so its result gives, with
  the error, the manager as the throw leaves it. The \<^verbatim>\<open>catch\<close> block: only an error
  whose code is ENOENT gives the empty index; every other error is thrown again. With a
  value in \<^verbatim>\<open>this.index\<close> that tests true, \<^verbatim>\<open>load\<close> returns it without reading the
  file: the first component of the result is the index returned, \<open>None\<close> when what is
  returned is no index.
\<close>

definition load_catch ::
  "int \<Rightarrow> IndexManager \<Rightarrow> error
     \<Rightarrow> (error \<times> IndexManager) + (MetadataIndex option \<times> IndexManager)" where
  "load_catch now m e =
     (if e = ENOENT then Inr (Some (emptyIndex now), m\<lparr>index := Some (emptyIndex now)\<rparr>)
      else Inl (e, m))"

definition load ::
  "Env \<Rightarrow> int \<Rightarrow> FileSystem \<Rightarrow> IndexManager
     \<Rightarrow> (error \<times> IndexManager) + (MetadataIndex option \<times> IndexManager)" where
  "load env now fs m =
     (case index m of
        Some idx \<Rightarrow> Inr (Some idx, m)
      | None \<Rightarrow>
         (if holdsNonIndex m then Inr (None, m)
          else
            (case readFile fs (indexPath m) of
               Inl e \<Rightarrow> load_catch now m e
             | Inr text \<Rightarrow>
                (case JSON_parse env text of
                   JSONSyntaxError \<Rightarrow> load_catch now m SyntaxError
                 | JSONNull \<Rightarrow> Inr (None, m\<lparr>index := None\<rparr>)
                 | JSONNoNotes \<Rightarrow> load_catch now (m\<lparr>holdsNonIndex := True\<rparr>) TypeError
                 | JSONIndex idx \<Rightarrow> Inr (Some idx, m\<lparr>index := Some idx\<rparr>)))))"

text \<open>
  \<^verbatim>\<open>save\<close>: the file operations it performs, in order, and the manager with the new
  time stamp. It is private, and each of its callers has an index in \<^verbatim>\<open>this.index\<close>
  when it calls.
\<close>

definition save :: "Env \<Rightarrow> int \<Rightarrow> IndexManager \<Rightarrow> error + (fs_op list \<times> IndexManager)" where
  "save env now m =
     (case index m of
        None \<Rightarrow> Inl NoIndexToSave
      | Some idx \<Rightarrow>
         (let idx' = idx\<lparr>lastUpdated := now\<rparr>;
              tempPath = indexPath m @ ''.tmp''
          in Inr ([WriteFile tempPath (JSON_stringify env idx'),
                   WriteFile (indexPath m) (JSON_stringify env idx')],
                  m\<lparr>index := Some idx'\<rparr>)))"

definition toMetadata :: "Env \<Rightarrow> Note \<Rightarrow> NoteMetadata" where
  "toMetadata env note =
     \<lparr>path = path note, title = title note, tags = tags note,
      created = created note, modified = modified note,
      wordCount = countWords env (content note),
      hasActionables = (hasActionableMarker env (content note) \<or> ''actionable'' \<in> set (tags note)),
      linkedIssues = extractIssueReferences env (content note),
      linkedNotes = links note\<rparr>"

text \<open>
  The tag counts are a JavaScript object used as a dictionary, here a map;
  \<^verbatim>\<open>(index.tags[tag] || 0) + 1\<close> reads a missing tag as 0. A tag named like a property
  every object inherits (\<^verbatim>\<open>constructor\<close>, \<^verbatim>\<open>toString\<close>) is outside this model.
\<close>

definition bumpTag :: "(string \<rightharpoonup> nat) \<Rightarrow> string \<Rightarrow> (string \<rightharpoonup> nat)" where
  "bumpTag counts tag = counts(tag \<mapsto> (case counts tag of None \<Rightarrow> 0 | Some c \<Rightarrow> c) + 1)"

definition addNoteToIndex ::
  "Env \<Rightarrow> FileSystem \<Rightarrow> string \<Rightarrow> MetadataIndex \<Rightarrow> string \<Rightarrow> error + MetadataIndex" where
  "addNoteToIndex env fs base idx filePath =
     (case readFile fs filePath of
        Inl e \<Rightarrow> Inl e
      | Inr text \<Rightarrow>
         (case stat fs filePath of
            Inl e \<Rightarrow> Inl e
          | Inr fileStats \<Rightarrow>
             (case parse env (getRelativePath base filePath) text
                     \<lfloor>birthtimeMs fileStats\<rfloor> \<lfloor>mtimeMs fileStats\<rfloor> of
                Inl e \<Rightarrow> Inl e
              | Inr note \<Rightarrow>
                 (let metadata = toMetadata env note;
                      indexEntry = NoteMetadata.extend metadata
                                     (IndexEntry.fields (mtimeMs fileStats))
                  in Inr (idx\<lparr>noteRecords := noteRecords idx @ [indexEntry],
                              tagCounts := foldl bumpTag (tagCounts idx) (tags metadata)\<rparr>)))))"

definition rebuildTagCounts :: "MetadataIndex \<Rightarrow> MetadataIndex" where
  "rebuildTagCounts idx =
     idx\<lparr>tagCounts := foldl (\<lambda>counts note. foldl bumpTag counts (tags note)) Map.empty (noteRecords idx)\<rparr>"

text \<open>
  \<^verbatim>\<open>rebuild\<close>. The innermost loop indexes each file of one listing and skips a file
  that fails; a directory whose listing fails is skipped; the scratchpad is a single
  file.
\<close>

definition allZones :: "Zone list" where
  "allZones = [Scratchpad, Inbox, Notes, Daily, Maps]"

definition mdPattern :: "string \<Rightarrow> string" where
  "mdPattern zonePath = zonePath @ ''/**/*.md''"

fun addFiles :: "Env \<Rightarrow> FileSystem \<Rightarrow> string \<Rightarrow> MetadataIndex \<Rightarrow> string list \<Rightarrow> MetadataIndex" where
  "addFiles env fs base idx [] = idx"
| "addFiles env fs base idx (file # files) =
     addFiles env fs base
       (case addNoteToIndex env fs base idx file of Inr idx' \<Rightarrow> idx' | Inl e \<Rightarrow> idx) files"

fun addZonePaths :: "Env \<Rightarrow> FileSystem \<Rightarrow> string \<Rightarrow> MetadataIndex \<Rightarrow> string list \<Rightarrow> MetadataIndex" where
  "addZonePaths env fs base idx [] = idx"
| "addZonePaths env fs base idx (zonePath # zonePaths) =
     addZonePaths env fs base
       (case glob fs (mdPattern zonePath) of
          Inr files \<Rightarrow> addFiles env fs base idx files
        | Inl e \<Rightarrow> idx) zonePaths"

fun addZones :: "Env \<Rightarrow> FileSystem \<Rightarrow> string \<Rightarrow> MetadataIndex \<Rightarrow> Zone list \<Rightarrow> MetadataIndex" where
  "addZones env fs base idx [] = idx"
| "addZones env fs base idx (zone # zones) =
     addZones env fs base
       (if zone = Scratchpad
        then (case addNoteToIndex env fs base idx (getZonePath base Scratchpad) of
                Inr idx' \<Rightarrow> idx' | Inl e \<Rightarrow> idx)
        else addZonePaths env fs base idx (getZonePaths base [zone])) zones"

definition rebuild ::
  "Env \<Rightarrow> int \<Rightarrow> FileSystem \<Rightarrow> IndexManager \<Rightarrow> error + (IndexManager \<times> fs_op list)" where
  "rebuild env now fs m =
     (let newIndex = addZones env fs (basePath m) (emptyIndex now) allZones in
      case save env now (m\<lparr>index := Some newIndex\<rparr>) of
        Inl e \<Rightarrow> Inl e
      | Inr (ops, m') \<Rightarrow> Inr (m', ops))"

text \<open>
  The public calls below start with \<^verbatim>\<open>await this.load()\<close> and then read
  \<^verbatim>\<open>this.index\<close>; on a value that tests true and has no \<^verbatim>\<open>notes\<close>, reading
  \<^verbatim>\<open>this.index.notes\<close> throws a \<^verbatim>\<open>TypeError\<close>. A call that throws gives the error.

  \<^verbatim>\<open>update\<close>: whatever \<^verbatim>\<open>addNoteToIndex\<close> or \<^verbatim>\<open>save\<close> throws is caught and
  logged, the record of the path staying removed.
\<close>

definition update ::
  "Env \<Rightarrow> int \<Rightarrow> FileSystem \<Rightarrow> IndexManager \<Rightarrow> string \<Rightarrow> error + (IndexManager \<times> fs_op list)" where
  "update env now fs m notePath =
     (case load env now fs m of
        Inl (e, m1) \<Rightarrow> Inl e
      | Inr (None, m1) \<Rightarrow> if holdsNonIndex m1 then Inl TypeError else rebuild env now fs m1
      | Inr (Some idx, m1) \<Rightarrow>
         (let idx1 = idx\<lparr>noteRecords := filter (\<lambda>note. path note \<noteq> notePath) (noteRecords idx)\<rparr>;
              fullPath = join (basePath m1) notePath
          in case addNoteToIndex env fs (basePath m1) idx1 fullPath of
               Inl e \<Rightarrow> Inr (m1\<lparr>index := Some idx1\<rparr>, [])
             | Inr idx2 \<Rightarrow>
                (case save env now (m1\<lparr>index := Some idx2\<rparr>) of
                   Inl e \<Rightarrow> Inr (m1\<lparr>index := Some idx2\<rparr>, [])
                 | Inr (ops, m2) \<Rightarrow> Inr (m2, ops))))"

definition invalidate ::
  "Env \<Rightarrow> int \<Rightarrow> FileSystem \<Rightarrow> IndexManager \<Rightarrow> string list \<Rightarrow> error + (IndexManager \<times> fs_op list)" where
  "invalidate env now fs m paths =
     (case load env now fs m of
        Inl (e, m1) \<Rightarrow> Inl e
      | Inr (None, m1) \<Rightarrow> if holdsNonIndex m1 then Inl TypeError else Inr (m1, [])
      | Inr (Some idx, m1) \<Rightarrow>
         (let initialCount = length (noteRecords idx);
              idx1 = idx\<lparr>noteRecords := filter (\<lambda>note. path note \<notin> set paths) (noteRecords idx)\<rparr>
          in if length (noteRecords idx1) \<noteq> initialCount
             then (case save env now (m1\<lparr>index := Some (rebuildTagCounts idx1)\<rparr>) of
                     Inl e \<Rightarrow> Inl e
                   | Inr (ops, m2) \<Rightarrow> Inr (m2, ops))
             else Inr (m1\<lparr>index := Some idx1\<rparr>, [])))"

text \<open>
  \<^verbatim>\<open>isStale\<close>. Each of the three loops returns \<open>True\<close> as soon as a file newer than
  the index is met; a \<^verbatim>\<open>stat\<close> or a listing that throws is skipped.
\<close>

fun filesNewer :: "FileSystem \<Rightarrow> real \<Rightarrow> string list \<Rightarrow> bool" where
  "filesNewer fs indexMtime [] = False"
| "filesNewer fs indexMtime (file # files) =
     (case stat fs file of
        Inr fileStat \<Rightarrow>
          (if mtimeMs fileStat > indexMtime then True else filesNewer fs indexMtime files)
      | Inl e \<Rightarrow> filesNewer fs indexMtime files)"

fun zonePathsNewer :: "FileSystem \<Rightarrow> real \<Rightarrow> string list \<Rightarrow> bool" where
  "zonePathsNewer fs indexMtime [] = False"
| "zonePathsNewer fs indexMtime (zonePath # zonePaths) =
     (case glob fs (mdPattern zonePath) of
        Inr files \<Rightarrow>
          (if filesNewer fs indexMtime files then True
           else zonePathsNewer fs indexMtime zonePaths)
      | Inl e \<Rightarrow> zonePathsNewer fs indexMtime zonePaths)"

fun zonesNewer :: "FileSystem \<Rightarrow> string \<Rightarrow> real \<Rightarrow> Zone list \<Rightarrow> bool" where
  "zonesNewer fs base indexMtime [] = False"
| "zonesNewer fs base indexMtime (zone # zones) =
     (if zone = Scratchpad
      then (case stat fs (getZonePath base Scratchpad) of
              Inr fileStat \<Rightarrow>
                (if mtimeMs fileStat > indexMtime then True
                 else zonesNewer fs base indexMtime zones)
            | Inl e \<Rightarrow> zonesNewer fs base indexMtime zones)
      else if zonePathsNewer fs indexMtime (getZonePaths base [zone]) then True
      else zonesNewer fs base indexMtime zones)"

definition isStale ::
  "Env \<Rightarrow> int \<Rightarrow> FileSystem \<Rightarrow> IndexManager \<Rightarrow> error + (bool \<times> IndexManager)" where
  "isStale env now fs m =
     (case load env now fs m of
        Inl (e, m1) \<Rightarrow> Inl e
      | Inr (None, m1) \<Rightarrow> if holdsNonIndex m1 then Inl TypeError else Inr (True, m1)
      | Inr (Some idx, m1) \<Rightarrow>
         (if length (noteRecords idx) = 0 then Inr (True, m1)
          else (case stat fs (indexPath m1) of
                  Inl e \<Rightarrow> Inr (True, m1)
                | Inr indexStat \<Rightarrow>
                    Inr (zonesNewer fs (basePath m1) (mtimeMs indexStat) allZones, m1))))"

section \<open>Queries (index-manager.ts)\<close>

text \<open>
  \<^verbatim>\<open>String.prototype.includes\<close>, and \<^verbatim>\<open>Array.prototype.sort\<close> with a comparator: a
  stable sort, which puts \<open>x\<close> before \<open>y\<close> when the comparator is not positive.
\<close>

fun includesStr :: "string \<Rightarrow> string \<Rightarrow> bool" where
  "includesStr [] sub = (sub = [])"
| "includesStr (c # s) sub = (startsWith (c # s) sub \<or> includesStr s sub)"

fun insertBy :: "('a \<Rightarrow> 'a \<Rightarrow> real) \<Rightarrow> 'a \<Rightarrow> 'a list \<Rightarrow> 'a list" where
  "insertBy cmp x [] = [x]"
| "insertBy cmp x (y # ys) = (if cmp x y \<le> 0 then x # y # ys else y # insertBy cmp x ys)"

definition sortBy :: "('a \<Rightarrow> 'a \<Rightarrow> real) \<Rightarrow> 'a list \<Rightarrow> 'a list" where
  "sortBy cmp xs = foldr (insertBy cmp) xs []"

text \<open>
  The options of a query. The field \<^verbatim>\<open>tags\<close> is \<open>filterTags\<close> here; an absent
  option is \<open>None\<close>. \<^verbatim>\<open>ZoneSearchOptions\<close> has the same fields and the query text,
  its field \<^verbatim>\<open>query\<close>, here \<open>queryText\<close>.
\<close>

record QueryOptions =
  zones :: "Zone list option"
  filterTags :: "string list option"
  dateFrom :: "int option"
  dateTo :: "int option"
  limit :: "int option"

record ZoneSearchOptions = QueryOptions +
  queryText :: "string option"

fun zonePattern :: "Zone \<Rightarrow> string" where
  "zonePattern Scratchpad = ''scratch.md''"
| "zonePattern Inbox = ''inbox/''"
| "zonePattern Notes = ''notes/''"
| "zonePattern Daily = ''daily/''"
| "zonePattern Maps = ''maps/''"
| "zonePattern Archive = ''archive/''"

definition inZones :: "Zone list \<Rightarrow> 'a NoteCore_scheme \<Rightarrow> bool" where
  "inZones zs note = list_ex (\<lambda>pattern. includesStr (path note) pattern) (map zonePattern zs)"

definition hasAllTags :: "string list \<Rightarrow> 'a NoteCore_scheme \<Rightarrow> bool" where
  "hasAllTags ts note = list_all (\<lambda>tag. tag \<in> set (tags note)) ts"

definition hasSomeTag :: "string list \<Rightarrow> 'a NoteCore_scheme \<Rightarrow> bool" where
  "hasSomeTag ts note = list_ex (\<lambda>tag. tag \<in> set (tags note)) ts"

text \<open>
  The arrays \<^verbatim>\<open>query\<close> works on live in a store, since \<^verbatim>\<open>sort\<close> changes its array
  in place: the spread \<^verbatim>\<open>[...this.index.notes]\<close>, each \<^verbatim>\<open>filter\<close> and
  \<^verbatim>\<open>slice\<close> allocate a new array, \<^verbatim>\<open>sort\<close> overwrites the one it is called on.
\<close>

record ArrayStore =
  arrays :: "nat \<Rightarrow> IndexEntry list"
  nextRef :: nat

definition alloc :: "IndexEntry list \<Rightarrow> ArrayStore \<Rightarrow> nat \<times> ArrayStore" where
  "alloc xs h = (nextRef h, \<lparr>arrays = (arrays h)(nextRef h := xs), nextRef = Suc (nextRef h)\<rparr>)"

definition sortAt :: "nat \<Rightarrow> (IndexEntry \<Rightarrow> IndexEntry \<Rightarrow> real) \<Rightarrow> ArrayStore \<Rightarrow> ArrayStore" where
  "sortAt r cmp h = h\<lparr>arrays := (arrays h)(r := sortBy cmp (arrays h r))\<rparr>"

definition filterAt :: "(IndexEntry \<Rightarrow> bool) \<Rightarrow> nat \<Rightarrow> ArrayStore \<Rightarrow> nat \<times> ArrayStore" where
  "filterAt keep r h = alloc (filter keep (arrays h r)) h"

definition byModifiedDesc :: "'a NoteCore_scheme \<Rightarrow> 'a NoteCore_scheme \<Rightarrow> real" where
  "byModifiedDesc a b = real_of_int (modified b - modified a)"

definition queryArrays :: "QueryOptions \<Rightarrow> nat \<Rightarrow> ArrayStore \<Rightarrow> NoteMetadata list \<times> ArrayStore" where
  "queryArrays options notesRef h =
     (let (r0, h0) = alloc (arrays h notesRef) h;
          (r1, h1) = (case zones options of
                        None \<Rightarrow> (r0, h0)
                      | Some zs \<Rightarrow> filterAt (inZones zs) r0 h0);
          (r2, h2) = (case filterTags options of
                        None \<Rightarrow> (r1, h1)
                      | Some ts \<Rightarrow> if length ts > 0 then filterAt (hasAllTags ts) r1 h1
                                   else (r1, h1));
          (r3, h3) = (case dateFrom options of
                        None \<Rightarrow> (r2, h2)
                      | Some d \<Rightarrow> filterAt (\<lambda>note. created note \<ge> d) r2 h2);
          (r4, h4) = (case dateTo options of
                        None \<Rightarrow> (r3, h3)
                      | Some d \<Rightarrow> filterAt (\<lambda>note. created note \<le> d) r3 h3);
          h5 = sortAt r4 byModifiedDesc h4;
          (r6, h6) = (case limit options of
                        None \<Rightarrow> (r4, h5)
                      | Some n \<Rightarrow> if n > 0 then alloc (take (nat n) (arrays h5 r4)) h5
                                  else (r4, h5))
      in (map NoteMetadata.truncate (arrays h6 r6), h6))"

text \<open>
  \<^verbatim>\<open>query\<close> on the manager: the records of the loaded index are the array at
  reference 0; the index in memory after the call is read back from the store. The
  third component lists the file operations of the call.
\<close>

definition query ::
  "Env \<Rightarrow> int \<Rightarrow> FileSystem \<Rightarrow> IndexManager \<Rightarrow> QueryOptions
     \<Rightarrow> error + (NoteMetadata list \<times> IndexManager \<times> fs_op list)" where
  "query env now fs m options =
     (case load env now fs m of
        Inl (e, m1) \<Rightarrow> Inl e
      | Inr (None, m1) \<Rightarrow> if holdsNonIndex m1 then Inl TypeError else Inr ([], m1, [])
      | Inr (Some idx, m1) \<Rightarrow>
         (let h = \<lparr>arrays = (\<lambda>r. [])(0 := noteRecords idx), nextRef = 1\<rparr>;
              (results, h') = queryArrays options 0 h
          in Inr (results, m1\<lparr>index := Some (idx\<lparr>noteRecords := arrays h' 0\<rparr>)\<rparr>, [])))"

section \<open>ZoneScanner (scanner.ts): metadata scans and tag listing\<close>

fun searchByDefault :: "Zone \<Rightarrow> bool" where
  "searchByDefault Scratchpad = False"
| "searchByDefault Inbox = False"
| "searchByDefault Notes = True"
| "searchByDefault Daily = True"
| "searchByDefault Maps = True"
| "searchByDefault Archive = False"

definition getDefaultSearchZones :: "Zone list" where
  "getDefaultSearchZones = filter searchByDefault [Scratchpad, Inbox, Notes, Daily, Maps, Archive]"

definition zonesOnly :: "Zone list \<Rightarrow> QueryOptions" where
  "zonesOnly zs = \<lparr>zones = Some zs, filterTags = None, dateFrom = None, dateTo = None, limit = None\<rparr>"

definition scanZonesMetadata ::
  "Env \<Rightarrow> int \<Rightarrow> FileSystem \<Rightarrow> IndexManager \<Rightarrow> Zone list
     \<Rightarrow> error + (NoteMetadata list \<times> IndexManager \<times> fs_op list)" where
  "scanZonesMetadata env now fs m zs =
     (case isStale env now fs m of
        Inl e \<Rightarrow> Inl e
      | Inr (stale, m1) \<Rightarrow>
         (case (if stale then rebuild env now fs m1 else Inr (m1, [])) of
            Inl e \<Rightarrow> Inl e
          | Inr (m2, ops) \<Rightarrow>
             (case query env now (apply_ops now ops fs) m2 (zonesOnly zs) of
                Inl e \<Rightarrow> Inl e
              | Inr (metadata, m3, ops') \<Rightarrow> Inr (metadata, m3, ops @ ops'))))"

datatype MatchMode = MatchAny | MatchAll

datatype SortOrder = ByCreated | ByModified | ByTitle

definition byCreatedDesc :: "'a NoteCore_scheme \<Rightarrow> 'a NoteCore_scheme \<Rightarrow> real" where
  "byCreatedDesc a b = real_of_int (created b - created a)"

definition byTitle :: "Env \<Rightarrow> 'a NoteCore_scheme \<Rightarrow> 'a NoteCore_scheme \<Rightarrow> real" where
  "byTitle env a b = real_of_int (localeCompare env (title a) (title b))"

definition listByTags ::
  "Env \<Rightarrow> int \<Rightarrow> FileSystem \<Rightarrow> IndexManager \<Rightarrow> string list \<Rightarrow> MatchMode \<Rightarrow> SortOrder
     \<Rightarrow> Zone list option \<Rightarrow> error + (NoteMetadata list \<times> IndexManager \<times> fs_op list)" where
  "listByTags env now fs m ts matchMode sortOrder zs =
     (let zonesToSearch = (case zs of Some z \<Rightarrow> z | None \<Rightarrow> getDefaultSearchZones) in
      case scanZonesMetadata env now fs m zonesToSearch of
        Inl e \<Rightarrow> Inl e
      | Inr (metadata, m', ops) \<Rightarrow>
         (let filtered = filter (\<lambda>note. if matchMode = MatchAll then hasAllTags ts note
                                         else hasSomeTag ts note) metadata;
              sorted = sortBy (case sortOrder of
                                 ByCreated \<Rightarrow> byCreatedDesc
                               | ByTitle \<Rightarrow> byTitle env
                               | ByModified \<Rightarrow> byModifiedDesc) filtered
          in Inr (sorted, m', ops)))"

section \<open>ZoneScanner (scanner.ts): loading, scoring, searching\<close>

record ZoneScanner =
  cache :: "string \<rightharpoonup> Note"
  cacheTimestamps :: "string \<rightharpoonup> real"
  indexManager :: IndexManager

text \<open>
  \<^verbatim>\<open>loadNote\<close>. The test \<^verbatim>\<open>cached && cacheTime\<close> fails for a missing entry and for
  the time stamp 0.
\<close>

definition readAndParse ::
  "Env \<Rightarrow> FileSystem \<Rightarrow> ZoneScanner \<Rightarrow> string \<Rightarrow> error + (Note \<times> ZoneScanner)" where
  "readAndParse env fs sc filePath =
     (case readFile fs filePath of
        Inl e \<Rightarrow> Inl e
      | Inr text \<Rightarrow>
         (case stat fs filePath of
            Inl e \<Rightarrow> Inl e
          | Inr fileStats \<Rightarrow>
             (case parse env (normalizeSlashes (relative env (basePath (indexManager sc)) filePath))
                     text \<lfloor>birthtimeMs fileStats\<rfloor> \<lfloor>mtimeMs fileStats\<rfloor> of
                Inl e \<Rightarrow> Inl e
              | Inr note \<Rightarrow>
                 Inr (note, sc\<lparr>cache := (cache sc)(filePath \<mapsto> note),
                               cacheTimestamps := (cacheTimestamps sc)(filePath \<mapsto> mtimeMs fileStats)\<rparr>))))"

definition loadNote ::
  "Env \<Rightarrow> FileSystem \<Rightarrow> ZoneScanner \<Rightarrow> string \<Rightarrow> bool \<Rightarrow> error + (Note \<times> ZoneScanner)" where
  "loadNote env fs sc filePath useCache =
     (if useCache then
        (case cache sc filePath of
           None \<Rightarrow> readAndParse env fs sc filePath
         | Some cached \<Rightarrow>
            (case cacheTimestamps sc filePath of
               None \<Rightarrow> readAndParse env fs sc filePath
             | Some cacheTime \<Rightarrow>
                (if cacheTime = 0 then readAndParse env fs sc filePath
                 else (case stat fs filePath of
                         Inl e \<Rightarrow> Inl e
                       | Inr fileStats \<Rightarrow>
                           (if mtimeMs fileStats \<le> cacheTime then Inr (cached, sc)
                            else readAndParse env fs sc filePath)))))
      else readAndParse env fs sc filePath)"

text \<open>\<^verbatim>\<open>split('\n\n')[0]\<close>: the text before the first empty line.\<close>

fun firstParagraphOf :: "string \<Rightarrow> string" where
  "firstParagraphOf [] = []"
| "firstParagraphOf (c # cs) =
     (if startsWith (c # cs) [CHR 0x0A, CHR 0x0A] then [] else c # firstParagraphOf cs)"

text \<open>The scoring weights and the confidence threshold.\<close>

definition exactTitleMatch :: real where "exactTitleMatch = 200"
definition titleWordMatch :: real where "titleWordMatch = 50"
definition exactTagMatch :: real where "exactTagMatch = 20"
definition contentFirstParagraph :: real where "contentFirstParagraph = 5"
definition contentMatch :: real where "contentMatch = 1"
definition recencyBoost :: real where "recencyBoost = 10"
definition CONFIDENCE_THRESHOLD :: real where "CONFIDENCE_THRESHOLD = 25"

fun zoneBoost :: "Zone \<Rightarrow> real" where
  "zoneBoost Notes = 5"
| "zoneBoost Daily = 3"
| "zoneBoost Inbox = 1"
| "zoneBoost Archive = 0"
| "zoneBoost Scratchpad = 2"
| "zoneBoost Maps = 4"

definition getZoneFromPath :: "string \<Rightarrow> Zone" where
  "getZoneFromPath p =
     (let firstPart = takeWhile (\<lambda>c. c \<noteq> CHR ''/'') p in
      if firstPart = ''notes'' then Notes
      else if firstPart = ''daily'' then Daily
      else if firstPart = ''inbox'' then Inbox
      else if firstPart = ''archive'' then Archive
      else if firstPart = ''maps'' then Maps
      else if includesStr p ''scratchpad'' then Scratchpad
      else Notes)"

definition maxAge :: real where
  "maxAge = 30 * 24 * 60 * 60 * 1000"

definition recency :: "int \<Rightarrow> int \<Rightarrow> real" where
  "recency now modifiedAt = recencyBoost * max 0 (1 - real_of_int (now - modifiedAt) / maxAge)"

definition wordMatches :: "Env \<Rightarrow> string \<Rightarrow> string \<Rightarrow> string list" where
  "wordMatches env titleLower queryLower =
     filter (\<lambda>qw. qw \<in> set (splitWhitespace env titleLower)) (splitWhitespace env queryLower)"

definition titleScore :: "Env \<Rightarrow> string \<Rightarrow> string \<Rightarrow> real" where
  "titleScore env titleLower queryLower =
     (if titleLower = queryLower then exactTitleMatch
      else if includesStr titleLower queryLower then
        (if length (wordMatches env titleLower queryLower) > 0
         then real (length (wordMatches env titleLower queryLower)) * titleWordMatch
         else titleWordMatch / 2)
      else 0)"

definition contentScore :: "Env \<Rightarrow> string \<Rightarrow> string \<Rightarrow> error + real" where
  "contentScore env text queryLower =
     (if includesStr (toLowerCase env text) queryLower then
        (case regexCount env queryLower (toLowerCase env text) of
           Inl e \<Rightarrow> Inl e
         | Inr occurrences \<Rightarrow>
            (case regexCount env queryLower (toLowerCase env (firstParagraphOf text)) of
               Inl e \<Rightarrow> Inl e
             | Inr firstParagraphMatches \<Rightarrow>
                Inr (real firstParagraphMatches * contentFirstParagraph
                     + (real occurrences - real firstParagraphMatches) * contentMatch)))
      else Inr 0)"

definition requestedTagMatches :: "'a QueryOptions_scheme \<Rightarrow> 'b NoteCore_scheme \<Rightarrow> string list" where
  "requestedTagMatches options note =
     (case filterTags options of
        None \<Rightarrow> []
      | Some ts \<Rightarrow> if length ts > 0 then filter (\<lambda>tag. tag \<in> set (tags note)) ts else [])"

definition scoreNoteEnhanced ::
  "Env \<Rightarrow> int \<Rightarrow> Note \<Rightarrow> ZoneSearchOptions \<Rightarrow> error + (real \<times> string list)" where
  "scoreNoteEnhanced env now note options =
     (case queryText options of
        None \<Rightarrow> Inr (0, [])
      | Some q \<Rightarrow>
         (if q = [] then Inr (0, [])
          else
            (let queryLower = toLowerCase env q;
                 matched = requestedTagMatches options note
             in case contentScore env (content note) queryLower of
                  Inl e \<Rightarrow> Inl e
                | Inr fromContent \<Rightarrow>
                    Inr (real (length matched) * exactTagMatch
                         + titleScore env (toLowerCase env (title note)) queryLower
                         + fromContent
                         + zoneBoost (getZoneFromPath (path note))
                         + recency now (modified note),
                         matched))))"

definition scoreMetadataOnly ::
  "int \<Rightarrow> NoteMetadata \<Rightarrow> ZoneSearchOptions \<Rightarrow> real \<times> string list" where
  "scoreMetadataOnly now metadata options =
     (let matched = requestedTagMatches options metadata
      in (real (length matched) * exactTagMatch
          + zoneBoost (getZoneFromPath (path metadata))
          + recency now (modified metadata),
          matched))"

record SearchResult =
  resultNote :: NoteMetadata
  excerpt :: string
  score :: real
  matchedTags :: "string list"

definition byScoreDesc :: "SearchResult \<Rightarrow> SearchResult \<Rightarrow> real" where
  "byScoreDesc a b = score b - score a"

fun indexOf :: "string \<Rightarrow> string \<Rightarrow> nat option" where
  "indexOf [] sub = (if sub = [] then Some 0 else None)"
| "indexOf (c # cs) sub =
     (if startsWith (c # cs) sub then Some 0 else map_option Suc (indexOf cs sub))"

definition generateContextualExcerpt :: "Env \<Rightarrow> string \<Rightarrow> string \<Rightarrow> string" where
  "generateContextualExcerpt env text q =
     (case indexOf (toLowerCase env text) (toLowerCase env q) of
        None \<Rightarrow> generateExcerpt env text 200
      | Some i \<Rightarrow>
         (let start = i - 100;
              stop = min (length text) (i + length q + 100)
          in trim env ((if start > 0 then ''...'' else '''')
                   @ take (stop - start) (drop start text)
                   @ (if stop < length text then ''...'' else ''''))))"

definition preFilterCandidates :: "Env \<Rightarrow> NoteMetadata list \<Rightarrow> string \<Rightarrow> NoteMetadata list" where
  "preFilterCandidates env metadata q =
     filter (\<lambda>note. includesStr (toLowerCase env (title note)) (toLowerCase env q)
                   \<or> list_ex (\<lambda>tag. includesStr (toLowerCase env tag) (toLowerCase env q)) (tags note))
            metadata"

definition expectedRelevance :: "Env \<Rightarrow> int \<Rightarrow> string \<Rightarrow> NoteMetadata \<Rightarrow> real" where
  "expectedRelevance env now queryLower a =
     zoneBoost (getZoneFromPath (path a))
     + (if includesStr (toLowerCase env (title a)) queryLower then 100 else 0)
     + (if toLowerCase env (title a) = queryLower then 200 else 0)
     + (if list_ex (\<lambda>tag. includesStr (toLowerCase env tag) queryLower) (tags a) then 50 else 0)
     + recency now (modified a)"

definition sortByExpectedRelevance ::
  "Env \<Rightarrow> int \<Rightarrow> NoteMetadata list \<Rightarrow> string \<Rightarrow> NoteMetadata list" where
  "sortByExpectedRelevance env now candidates q =
     sortBy (\<lambda>a b. expectedRelevance env now (toLowerCase env q) b
                   - expectedRelevance env now (toLowerCase env q) a)
            candidates"

definition effectiveLimit :: "'a QueryOptions_scheme \<Rightarrow> int" where
  "effectiveLimit options = (case limit options of None \<Rightarrow> 20 | Some l \<Rightarrow> if l = 0 then 20 else l)"

text \<open>
  The loop of \<^verbatim>\<open>search\<close> over the sorted candidates. \<open>totalN\<close> is
  \<^verbatim>\<open>sortedCandidates.length\<close>; the result carries \<^verbatim>\<open>processedCount\<close>. Reading
  \<^verbatim>\<open>results[limit - 1].score\<close> at a negative index throws a \<^verbatim>\<open>TypeError\<close>.
\<close>

fun searchLoop ::
  "Env \<Rightarrow> int \<Rightarrow> FileSystem \<Rightarrow> ZoneSearchOptions \<Rightarrow> string \<Rightarrow> int \<Rightarrow> nat \<Rightarrow> NoteMetadata list
     \<Rightarrow> SearchResult list \<Rightarrow> nat \<Rightarrow> ZoneScanner
     \<Rightarrow> error + (SearchResult list \<times> nat \<times> ZoneScanner)" where
  "searchLoop env now fs options q limitN totalN [] results processedCount sc =
     Inr (results, processedCount, sc)"
| "searchLoop env now fs options q limitN totalN (candidate # rest) results processedCount sc =
     (case loadNote env fs sc (basePath (indexManager sc) @ ''/'' @ path candidate) True of
        Inl e \<Rightarrow> Inl e
      | Inr (note, sc1) \<Rightarrow>
         (case scoreNoteEnhanced env now note options of
            Inl e \<Rightarrow> Inl e
          | Inr (s, matched) \<Rightarrow>
             (let results1 =
                    (if s > 0
                     then sortBy byScoreDesc
                            (results @ [\<lparr>resultNote = toMetadata env note,
                                         excerpt = generateContextualExcerpt env (content note) q,
                                         score = s, matchedTags = matched\<rparr>])
                     else results);
                  pc = Suc processedCount
              in if s > 0 \<and> int (length results1) \<ge> limitN \<and> limitN - 1 < 0 then Inl TypeError
                 else if s > 0 \<and> int (length results1) \<ge> limitN
                         \<and> score (results1 ! nat (limitN - 1)) \<ge> CONFIDENCE_THRESHOLD
                   then Inr (results1, pc, sc1)
                 else if int pc \<ge> min (int totalN) (limitN * 3) then Inr (results1, pc, sc1)
                 else searchLoop env now fs options q limitN totalN rest results1 pc sc1)))"

text \<open>\<^verbatim>\<open>results.slice(0, n)\<close>: a negative \<open>n\<close> counts from the end.\<close>

definition sliceTo :: "int \<Rightarrow> 'a list \<Rightarrow> 'a list" where
  "sliceTo n xs = (if n \<ge> 0 then take (nat n) xs else take (length xs - nat (- n)) xs)"

definition search ::
  "Env \<Rightarrow> int \<Rightarrow> FileSystem \<Rightarrow> ZoneScanner \<Rightarrow> ZoneSearchOptions
     \<Rightarrow> error + (SearchResult list \<times> ZoneScanner \<times> fs_op list)" where
  "search env now fs sc options =
     (let zonesToSearch = (case zones options of Some z \<Rightarrow> z | None \<Rightarrow> getDefaultSearchZones) in
      case scanZonesMetadata env now fs (indexManager sc) zonesToSearch of
        Inl e \<Rightarrow> Inl e
      | Inr (allMetadata, m', ops) \<Rightarrow>
         (let sc1 = sc\<lparr>indexManager := m'\<rparr>;
              fs1 = apply_ops now ops fs;
              f1 = (case dateFrom options of
                      None \<Rightarrow> allMetadata
                    | Some d \<Rightarrow> filter (\<lambda>note. created note \<ge> d) allMetadata);
              f2 = (case dateTo options of
                      None \<Rightarrow> f1
                    | Some d \<Rightarrow> filter (\<lambda>note. created note \<le> d) f1);
              filteredMetadata =
                   (case filterTags options of
                      None \<Rightarrow> f2
                    | Some ts \<Rightarrow> if length ts > 0 then filter (hasAllTags ts) f2 else f2);
              finish = (\<lambda>results. case limit options of
                                     None \<Rightarrow> sortBy byScoreDesc results
                                   | Some l \<Rightarrow> if l = 0 then sortBy byScoreDesc results
                                               else sliceTo l (sortBy byScoreDesc results))
          in case queryText options of
               Some (c # cs) \<Rightarrow>
                 (let sortedCandidates =
                        sortByExpectedRelevance env now
                          (preFilterCandidates env filteredMetadata (c # cs)) (c # cs)
                  in case searchLoop env now fs1 options (c # cs) (effectiveLimit options)
                            (length sortedCandidates) sortedCandidates [] 0 sc1 of
                       Inl e \<Rightarrow> Inl e
                     | Inr (results, processedCount, sc2) \<Rightarrow> Inr (finish results, sc2, ops))
             | _ \<Rightarrow>
                 Inr (finish (map (\<lambda>metadata.
                                \<lparr>resultNote = metadata, excerpt = '''',
                                 score = fst (scoreMetadataOnly now metadata options),
                                 matchedTags = snd (scoreMetadataOnly now metadata options)\<rparr>)
                              filteredMetadata),
                      sc1, ops)))"

section \<open>Concrete inputs\<close>

text \<open>
  A corpus root \<^verbatim>\<open>/base\<close> with one note. The stand-ins for \<^verbatim>\<open>JSON.parse\<close> and
  \<^verbatim>\<open>JSON.stringify\<close> agree with the library on the texts used here: the text
  \<^verbatim>\<open>null\<close> parses to null, a file cut off after its opening brace does not parse,
  and a serialized index is a non-empty text in braces. The stand-in for the parser
  takes every white-space separated word that starts with \<^verbatim>\<open>#\<close> as a tag.
\<close>

definition exEntry :: "string list \<Rightarrow> IndexEntry" where
  "exEntry ts =
     \<lparr>path = ''notes/test-note.md'', title = ''Test Note'', tags = ts,
      created = 100, modified = 100, wordCount = 2, hasActionables = False,
      linkedIssues = [], linkedNotes = [], mtime = 100\<rparr>"

definition exIndex :: MetadataIndex where
  "exIndex = \<lparr>version = 1, lastUpdated = 150,
              noteRecords = [exEntry [''test'']],
              tagCounts = [''test'' \<mapsto> 1]\<rparr>"

definition exManager :: IndexManager where
  "exManager = \<lparr>basePath = ''/base'', index = Some exIndex, holdsNonIndex = False\<rparr>"

definition freshManager :: IndexManager where
  "freshManager = \<lparr>basePath = ''/base'', index = None, holdsNonIndex = False\<rparr>"

text \<open>
  Stand-ins for \<^verbatim>\<open>toLowerCase\<close>, \<^verbatim>\<open>split(/\s+/)\<close> and \<^verbatim>\<open>trim\<close> that agree with the
  library on texts of ASCII characters.
\<close>

definition lowerChar :: "char \<Rightarrow> char" where
  "lowerChar c =
     (case map_of (zip ''ABCDEFGHIJKLMNOPQRSTUVWXYZ'' ''abcdefghijklmnopqrstuvwxyz'') c of
        Some l \<Rightarrow> l
      | None \<Rightarrow> c)"

definition asciiLowerCase :: "string \<Rightarrow> string" where
  "asciiLowerCase s = map lowerChar s"

definition asciiSpace :: "char \<Rightarrow> bool" where
  "asciiSpace c = (c \<in> set [CHR 0x20, CHR 0x09, CHR 0x0A, CHR 0x0B, CHR 0x0C, CHR 0x0D])"

fun asciiSplitWs :: "string \<Rightarrow> string \<Rightarrow> bool \<Rightarrow> string list" where
  "asciiSplitWs [] cur inRun = [cur]"
| "asciiSplitWs (c # cs) cur inRun =
     (if asciiSpace c then (if inRun then asciiSplitWs cs cur True else cur # asciiSplitWs cs [] True)
      else asciiSplitWs cs (cur @ [c]) False)"

definition asciiSplit :: "string \<Rightarrow> string list" where
  "asciiSplit s = asciiSplitWs s [] False"

definition asciiTrim :: "string \<Rightarrow> string" where
  "asciiTrim s = rev (dropWhile asciiSpace (rev (dropWhile asciiSpace s)))"

definition exEnv :: Env where
  "exEnv =
     \<lparr>JSON_parse = (\<lambda>text. if text = ''null'' then JSONNull
                            else if text = ''{}'' then JSONNoNotes
                            else JSONSyntaxError),
      JSON_stringify = (\<lambda>idx. ''{'' @ concat (map path (noteRecords idx)) @ ''}''),
      parse = (\<lambda>p text c m. Inr \<lparr>path = p, title = ''Updated Note'',
                 tags = [''updated'', ''test''], created = c, modified = m,
                 content = text, links = []\<rparr>),
      countWords = (\<lambda>text. 0),
      hasActionableMarker = (\<lambda>text. False),
      extractIssueReferences = (\<lambda>text. []),
      regexCount = (\<lambda>p text. Inr 1),
      localeCompare = (\<lambda>a b. 0),
      relative = (\<lambda>base p. drop (length base + 1) p),
      generateExcerpt = (\<lambda>text n. take n text),
      toLowerCase = asciiLowerCase,
      splitWhitespace = asciiSplit,
      trim = asciiTrim\<rparr>"

definition exFs :: FileSystem where
  "exFs =
     \<lparr>readFile = (\<lambda>p. Inl ENOENT)
        (''/base/.thread-stack-index.json'' := Inr ''{notes/test-note.md}'',
         ''/base/notes/test-note.md'' := Inr ''New content #updated #test''),
      stat = (\<lambda>p. Inl ENOENT)
        (''/base/.thread-stack-index.json'' := Inr \<lparr>mtimeMs = 150, birthtimeMs = 150\<rparr>,
         ''/base/notes/test-note.md'' := Inr \<lparr>mtimeMs = 200, birthtimeMs = 100\<rparr>),
      glob = (\<lambda>p. Inr [])(''/base/notes/**/*.md'' := Inr [''/base/notes/test-note.md''])\<rparr>"




text \<open>
  The number of times a tag occurs in the records of an index, and the invariant of the
  tag counts: a tag is counted exactly as often as it occurs, a tag that does not occur
  has no entry.
\<close>

definition tagOccurrences :: "MetadataIndex \<Rightarrow> string \<Rightarrow> nat" where
  "tagOccurrences idx tag = sum_list (map (\<lambda>note. count_list (tags note) tag) (noteRecords idx))"

definition tagCountsExact :: "MetadataIndex \<Rightarrow> bool" where
  "tagCountsExact idx =
     (\<forall>tag. tagCounts idx tag =
        (if tagOccurrences idx tag = 0 then None else Some (tagOccurrences idx tag)))"




definition touch :: "string \<Rightarrow> real \<Rightarrow> FileSystem \<Rightarrow> FileSystem" where
  "touch file t fs =
     fs\<lparr>stat := (stat fs)(file := Inr \<lparr>mtimeMs = t,
             birthtimeMs = (case stat fs file of Inr st \<Rightarrow> birthtimeMs st | Inl e \<Rightarrow> t)\<rparr>)\<rparr>"

definition quietFs :: FileSystem where
  "quietFs = touch ''/base/notes/test-note.md'' 100 exFs"

definition tagsOnly :: "string list \<Rightarrow> QueryOptions" where
  "tagsOnly ts = \<lparr>zones = None, filterTags = Some ts, dateFrom = None, dateTo = None, limit = None\<rparr>"

definition exEntryA :: IndexEntry where
  "exEntryA =
     \<lparr>path = ''notes/a.md'', title = ''A'', tags = [''x'', ''y''],
      created = 10, modified = 100, wordCount = 1, hasActionables = False,
      linkedIssues = [], linkedNotes = [], mtime = 100\<rparr>"

definition exEntryB :: IndexEntry where
  "exEntryB =
     \<lparr>path = ''notes/b.md'', title = ''B'', tags = [''y''],
      created = 20, modified = 200, wordCount = 1, hasActionables = False,
      linkedIssues = [], linkedNotes = [], mtime = 120\<rparr>"

definition exIndex2 :: MetadataIndex where
  "exIndex2 = \<lparr>version = 1, lastUpdated = 150,
               noteRecords = [exEntryA, exEntryB],
               tagCounts = [''x'' \<mapsto> 1, ''y'' \<mapsto> 2]\<rparr>"

definition exManager2 :: IndexManager where
  "exManager2 = \<lparr>basePath = ''/base'', index = Some exIndex2, holdsNonIndex = False\<rparr>"

definition noOptions :: QueryOptions where
  "noOptions = \<lparr>zones = None, filterTags = None, dateFrom = None, dateTo = None, limit = None\<rparr>"

definition exNote :: "string \<Rightarrow> Note" where
  "exNote t =
     \<lparr>path = ''notes/widgets.md'', title = t, tags = [], created = 0, modified = 0,
      content = ''nothing here'', links = []\<rparr>"

definition exSearch :: "string \<Rightarrow> ZoneSearchOptions" where
  "exSearch q =
     \<lparr>zones = None, filterTags = None, dateFrom = None, dateTo = None, limit = None,
      queryText = Some q\<rparr>"

definition exScanner :: ZoneScanner where
  "exScanner =
     \<lparr>cache = [''/base/notes/test-note.md'' \<mapsto> exNote ''Stale Title''],
      cacheTimestamps = [''/base/notes/test-note.md'' \<mapsto> 100],
      indexManager = exManager\<rparr>"




definition freshScanner :: ZoneScanner where
  "freshScanner = \<lparr>cache = Map.empty, cacheTimestamps = Map.empty, indexManager = exManager\<rparr>"

text \<open>
  The note and the scanner that a first load of the example note leaves, and the file
  system after the note file is rewritten with its modification time unchanged.
\<close>

definition cachedNote :: Note where
  "cachedNote =
     \<lparr>path = ''notes/test-note.md'', title = ''Updated Note'', tags = [''updated'', ''test''],
      created = 100, modified = 200, content = ''New content #updated #test'', links = []\<rparr>"

definition cachedScanner :: ZoneScanner where
  "cachedScanner =
     \<lparr>cache = [''/base/notes/test-note.md'' \<mapsto> cachedNote],
      cacheTimestamps = [''/base/notes/test-note.md'' \<mapsto> 200],
      indexManager = exManager\<rparr>"

definition rewrittenFs :: FileSystem where
  "rewrittenFs =
     exFs\<lparr>readFile := (readFile exFs)(''/base/notes/test-note.md'' := Inr ''Rewritten #other'')\<rparr>"


section \<open>Properties\<close>

subsection \<open>Loading the index\<close>

lemma load_loaded: "index m = Some idx \<Longrightarrow> load env now fs m = Inr (Some idx, m)"
  by (simp add: load_def)

lemma load_index_result: "load env now fs m = Inr (r, m') \<Longrightarrow> index m' = r"
  by (auto simp: load_def load_catch_def split: option.splits sum.splits json_result.splits if_splits)

lemma load_basePath: "load env now fs m = Inr (r, m') \<Longrightarrow> basePath m' = basePath m"
  by (auto simp: load_def load_catch_def split: option.splits sum.splits json_result.splits if_splits)




subsection \<open>Saving the index\<close>

lemma save_ops:
  assumes "save env now m = Inr (ops, m')"
  shows "\<exists>idx. index m' = Some idx \<and>
           ops = [WriteFile (indexPath m @ ''.tmp'') (JSON_stringify env idx),
                  WriteFile (indexPath m) (JSON_stringify env idx)]"
  using assms by (auto simp: save_def Let_def split: option.splits)

lemma save_index:
  "save env now m = Inr (ops, m') \<Longrightarrow>
     \<exists>idx. index m = Some idx \<and> m' = m\<lparr>index := Some (idx\<lparr>lastUpdated := now\<rparr>)\<rparr>"
  by (auto simp: save_def Let_def split: option.splits)


lemma rebuild_ops:
  assumes "rebuild env now fs m = Inr (m', ops)"
  shows "\<exists>s. ops = [WriteFile (indexPath m @ ''.tmp'') s, WriteFile (indexPath m) s]"
proof -
  from assms have "save env now (m\<lparr>index := Some (addZones env fs (basePath m) (emptyIndex now) allZones)\<rparr>)
      = Inr (ops, m')"
    by (simp add: rebuild_def Let_def split: sum.splits prod.splits)
  from save_ops [OF this] show ?thesis
    by (auto simp: indexPath_def)
qed

text \<open>
  Every call that persists the index does so through \<^verbatim>\<open>save\<close>: the file operations
  of \<^verbatim>\<open>update\<close> and \<^verbatim>\<open>invalidate\<close> are none, or the two writes of \<^verbatim>\<open>save\<close>.
\<close>

lemma update_ops:
  assumes "update env now fs m notePath = Inr (m', ops)"
  shows "ops = [] \<or> (\<exists>s. ops = [WriteFile (indexPath m @ ''.tmp'') s, WriteFile (indexPath m) s])"
proof (cases "load env now fs m")
  case (Inl e)
  with assms show ?thesis by (simp add: update_def split: prod.splits)
next
  case loaded: (Inr r)
  obtain found m1 where r: "r = (found, m1)" by (cases r)
  from load_basePath [of env now fs m found m1] loaded r
  have p: "indexPath m1 = indexPath m" by (simp add: indexPath_def)
  show ?thesis
  proof (cases found)
    case None
    with assms loaded r have "rebuild env now fs m1 = Inr (m', ops)"
      by (simp add: update_def split: if_splits)
    from rebuild_ops [OF this] p show ?thesis by simp
  next
    case (Some idx)
    let ?idx1 = "idx\<lparr>noteRecords := filter (\<lambda>n. path n \<noteq> notePath) (noteRecords idx)\<rparr>"
    show ?thesis
    proof (cases "addNoteToIndex env fs (basePath m1) ?idx1 (join (basePath m1) notePath)")
      case (Inl e)
      with assms loaded r Some show ?thesis
        by (simp add: update_def Let_def)
    next
      case added: (Inr idx2)
      show ?thesis
      proof (cases "save env now (m1\<lparr>index := Some idx2\<rparr>)")
        case (Inl e)
        with assms loaded r Some added show ?thesis
          by (simp add: update_def Let_def)
      next
        case saved: (Inr q)
        obtain ops2 m2 where q: "q = (ops2, m2)" by (cases q)
        with assms loaded r Some added saved have "ops = ops2"
          by (simp add: update_def Let_def)
        moreover from save_ops [of env now "m1\<lparr>index := Some idx2\<rparr>" ops2 m2] saved q
        have "\<exists>s. ops2 = [WriteFile (indexPath m1 @ ''.tmp'') s, WriteFile (indexPath m1) s]"
          by (auto simp: indexPath_def)
        ultimately show ?thesis using p by simp
      qed
    qed
  qed
qed

lemma invalidate_ops:
  assumes "invalidate env now fs m paths = Inr (m', ops)"
  shows "ops = [] \<or> (\<exists>s. ops = [WriteFile (indexPath m @ ''.tmp'') s, WriteFile (indexPath m) s])"
proof (cases "load env now fs m")
  case (Inl e)
  with assms show ?thesis by (simp add: invalidate_def split: prod.splits)
next
  case loaded: (Inr r)
  obtain found m1 where r: "r = (found, m1)" by (cases r)
  from load_basePath [of env now fs m found m1] loaded r
  have p: "indexPath m1 = indexPath m" by (simp add: indexPath_def)
  show ?thesis
  proof (cases found)
    case None
    with assms loaded r show ?thesis by (simp add: invalidate_def split: if_splits)
  next
    case (Some idx)
    let ?idx1 = "idx\<lparr>noteRecords := filter (\<lambda>n. path n \<notin> set paths) (noteRecords idx)\<rparr>"
    show ?thesis
    proof (cases "length (noteRecords ?idx1) \<noteq> length (noteRecords idx)")
      case False
      with assms loaded r Some show ?thesis
        by (simp add: invalidate_def Let_def)
    next
      case True
      show ?thesis
      proof (cases "save env now (m1\<lparr>index := Some (rebuildTagCounts ?idx1)\<rparr>)")
        case (Inl e)
        with assms loaded r Some True show ?thesis
          by (simp add: invalidate_def Let_def)
      next
        case saved: (Inr q)
        obtain ops2 m2 where q: "q = (ops2, m2)" by (cases q)
        with assms loaded r Some True saved have "ops = ops2"
          by (simp add: invalidate_def Let_def)
        moreover from save_ops [of env now "m1\<lparr>index := Some (rebuildTagCounts ?idx1)\<rparr>" ops2 m2]
          saved q
        have "\<exists>s. ops2 = [WriteFile (indexPath m1 @ ''.tmp'') s, WriteFile (indexPath m1) s]"
          by (auto simp: indexPath_def)
        ultimately show ?thesis using p by simp
      qed
    qed
  qed
qed

text \<open>
  C1 on the code: \<^verbatim>\<open>save\<close> writes the temporary file and then writes the canonical
  path itself with a second \<^verbatim>\<open>writeFile\<close>; nothing is renamed. While that second
  write runs, the canonical path is observed truncated (third state below), which is
  neither the index it held before nor the new one.
\<close>

theorem save_writes_canonical_path_in_place:
  "save exEnv 300 exManager
     = Inr ([WriteFile ''/base/.thread-stack-index.json.tmp'' ''{notes/test-note.md}'',
             WriteFile ''/base/.thread-stack-index.json'' ''{notes/test-note.md}''],
            exManager\<lparr>index := Some (exIndex\<lparr>lastUpdated := 300\<rparr>)\<rparr>)
   \<and> map (\<lambda>s. readFile s ''/base/.thread-stack-index.json'')
         (trace 300
            [WriteFile ''/base/.thread-stack-index.json.tmp'' ''{notes/test-note.md}'',
             WriteFile ''/base/.thread-stack-index.json'' ''{notes/test-note.md}''] exFs)
     = [Inr ''{notes/test-note.md}'', Inr ''{notes/test-note.md}'', Inr '''',
        Inr ''{notes/test-note.md}'']
   \<and> load exEnv 300 (writeFile ''/base/.thread-stack-index.json'' '''' 300 exFs) freshManager
     = Inl (SyntaxError, freshManager)"
  by (simp add: save_def exManager_def exEnv_def exIndex_def exEntry_def indexPath_def
      join_def writeFile_def exFs_def load_def load_catch_def freshManager_def)

subsection \<open>Tag counts\<close>

lemma foldl_bumpTag:
  "foldl bumpTag counts ts tag =
     (if count_list ts tag = 0 then counts tag
      else Some ((case counts tag of None \<Rightarrow> 0 | Some c \<Rightarrow> c) + count_list ts tag))"
  by (induction ts arbitrary: counts) (auto simp: bumpTag_def split: option.splits)

lemma foldl_notes_bumpTag:
  "foldl (\<lambda>counts note. foldl bumpTag counts (tags note)) counts ns tag =
     (if sum_list (map (\<lambda>note. count_list (tags note) tag) ns) = 0 then counts tag
      else Some ((case counts tag of None \<Rightarrow> 0 | Some c \<Rightarrow> c)
                 + sum_list (map (\<lambda>note. count_list (tags note) tag) ns)))"
proof (induction ns arbitrary: counts)
  case Nil
  then show ?case by simp
next
  case (Cons n ns)
  let ?step = "\<lambda>counts note. foldl bumpTag counts (tags note)"
  have "foldl ?step counts (n # ns) tag = foldl ?step (foldl bumpTag counts (tags n)) ns tag"
    by (simp only: foldl_Cons)
  also have "\<dots> =
     (if sum_list (map (\<lambda>note. count_list (tags note) tag) ns) = 0
      then foldl bumpTag counts (tags n) tag
      else Some ((case foldl bumpTag counts (tags n) tag of None \<Rightarrow> 0 | Some c \<Rightarrow> c)
                 + sum_list (map (\<lambda>note. count_list (tags note) tag) ns)))"
    by (rule Cons.IH)
  also have "\<dots> =
     (if sum_list (map (\<lambda>note. count_list (tags note) tag) (n # ns)) = 0 then counts tag
      else Some ((case counts tag of None \<Rightarrow> 0 | Some c \<Rightarrow> c)
                 + sum_list (map (\<lambda>note. count_list (tags note) tag) (n # ns))))"
    unfolding foldl_bumpTag [of counts "tags n" tag]
    by (simp split: option.splits)
  finally show ?case .
qed

lemma rebuildTagCounts_exact: "tagCountsExact (rebuildTagCounts idx)"
  by (simp add: tagCountsExact_def rebuildTagCounts_def tagOccurrences_def foldl_notes_bumpTag)

text \<open>
  \<^verbatim>\<open>addNoteToIndex\<close> keeps the counts exact, so \<^verbatim>\<open>rebuild\<close>, which starts from the
  empty index, ends with exact counts; \<^verbatim>\<open>invalidate\<close> recounts whenever it removes a
  record, and keeps exact counts exact.
\<close>

lemma tags_extend: "tags (NoteMetadata.extend md (IndexEntry.fields t)) = tags md"
  by (simp add: NoteMetadata.extend_def IndexEntry.fields_def)

lemma addNoteToIndex_exact:
  assumes "tagCountsExact idx" and "addNoteToIndex env fs base idx file = Inr idx'"
  shows "tagCountsExact idx'"
proof -
  from assms(2) obtain body where rf: "readFile fs file = Inr body"
    by (cases "readFile fs file") (simp_all add: addNoteToIndex_def)
  from assms(2) rf obtain st where sf: "stat fs file = Inr st"
    by (cases "stat fs file") (simp_all add: addNoteToIndex_def)
  from assms(2) rf sf obtain nt where
    pf: "parse env (getRelativePath base file) body \<lfloor>birthtimeMs st\<rfloor> \<lfloor>mtimeMs st\<rfloor> = Inr nt"
    by (cases "parse env (getRelativePath base file) body \<lfloor>birthtimeMs st\<rfloor> \<lfloor>mtimeMs st\<rfloor>")
       (simp_all add: addNoteToIndex_def)
  from assms(2) have
    raw: "idx' = idx\<lparr>noteRecords := noteRecords idx
                        @ [NoteMetadata.extend (toMetadata env nt) (IndexEntry.fields (mtimeMs st))],
                      tagCounts := foldl bumpTag (tagCounts idx) (tags (toMetadata env nt))\<rparr>"
    by (simp add: addNoteToIndex_def rf sf pf Let_def)
  define entry where "entry = NoteMetadata.extend (toMetadata env nt) (IndexEntry.fields (mtimeMs st))"
  have "tags entry = tags (toMetadata env nt)"
    by (simp add: entry_def tags_extend)
  with raw have
    idx': "idx' = idx\<lparr>noteRecords := noteRecords idx @ [entry],
                       tagCounts := foldl bumpTag (tagCounts idx) (tags entry)\<rparr>"
    by (simp add: entry_def)
  have occ: "tagOccurrences idx' tag = tagOccurrences idx tag + count_list (tags entry) tag" for tag
    by (simp add: idx' tagOccurrences_def)
  show ?thesis
    unfolding tagCountsExact_def
  proof
    fix tag
    from assms(1) have old: "tagCounts idx tag =
        (if tagOccurrences idx tag = 0 then None else Some (tagOccurrences idx tag))"
      unfolding tagCountsExact_def by blast
    have "tagCounts idx' tag = foldl bumpTag (tagCounts idx) (tags entry) tag"
      by (simp add: idx')
    then show "tagCounts idx' tag =
        (if tagOccurrences idx' tag = 0 then None else Some (tagOccurrences idx' tag))"
      by (simp add: foldl_bumpTag old occ)
  qed
qed

lemma addFiles_exact:
  "tagCountsExact idx \<Longrightarrow> tagCountsExact (addFiles env fs base idx files)"
proof (induction files arbitrary: idx)
  case Nil
  then show ?case by simp
next
  case (Cons f files)
  show ?case
  proof (cases "addNoteToIndex env fs base idx f")
    case (Inl e)
    with Cons show ?thesis by simp
  next
    case (Inr idx')
    with Cons.prems have "tagCountsExact idx'" by (rule addNoteToIndex_exact)
    with Cons.IH Inr show ?thesis by simp
  qed
qed

lemma addZonePaths_exact:
  "tagCountsExact idx \<Longrightarrow> tagCountsExact (addZonePaths env fs base idx zps)"
  by (induction zps arbitrary: idx) (auto simp: addFiles_exact split: sum.splits)

lemma addZones_exact:
  "tagCountsExact idx \<Longrightarrow> tagCountsExact (addZones env fs base idx zs)"
proof (induction zs arbitrary: idx)
  case Nil
  then show ?case by simp
next
  case (Cons z zs)
  show ?case
  proof (cases "z = Scratchpad")
    case False
    with Cons show ?thesis by (simp add: addZonePaths_exact)
  next
    case True
    show ?thesis
    proof (cases "addNoteToIndex env fs base idx (getZonePath base Scratchpad)")
      case (Inl e)
      with True Cons show ?thesis by simp
    next
      case (Inr idx')
      with Cons.prems have "tagCountsExact idx'" by (rule addNoteToIndex_exact)
      with Cons.IH Inr True show ?thesis by simp
    qed
  qed
qed

lemma tagCountsExact_lastUpdated: "tagCountsExact (idx\<lparr>lastUpdated := t\<rparr>) = tagCountsExact idx"
  by (simp add: tagCountsExact_def tagOccurrences_def)

lemma rebuild_exact:
  assumes "rebuild env now fs m = Inr (m', ops)"
  shows "\<exists>idx. index m' = Some idx \<and> tagCountsExact idx"
proof -
  let ?new = "addZones env fs (basePath m) (emptyIndex now) allZones"
  have "tagCountsExact (emptyIndex now)"
    by (simp add: tagCountsExact_def emptyIndex_def tagOccurrences_def)
  then have e: "tagCountsExact ?new" by (rule addZones_exact)
  from assms have "save env now (m\<lparr>index := Some ?new\<rparr>) = Inr (ops, m')"
    by (simp add: rebuild_def Let_def split: sum.splits prod.splits)
  from save_index [OF this] have "index m' = Some (?new\<lparr>lastUpdated := now\<rparr>)"
    by auto
  with e show ?thesis by (simp add: tagCountsExact_lastUpdated)
qed

lemma filter_exact_unchanged:
  assumes "tagCountsExact idx" and "length (filter P (noteRecords idx)) = length (noteRecords idx)"
  shows "tagCountsExact (idx\<lparr>noteRecords := filter P (noteRecords idx)\<rparr>)"
proof -
  from assms(2) have "filter P (noteRecords idx) = noteRecords idx"
    by (metis filter_True length_filter_less linorder_not_less order_refl)
  with assms(1) show ?thesis by simp
qed

lemma invalidate_exact:
  assumes "index m = Some idx" and "tagCountsExact idx"
      and "invalidate env now fs m paths = Inr (m', ops)"
  shows "\<exists>idx'. index m' = Some idx' \<and> tagCountsExact idx'"
proof -
  let ?idx1 = "idx\<lparr>noteRecords := filter (\<lambda>n. path n \<notin> set paths) (noteRecords idx)\<rparr>"
  show ?thesis
  proof (cases "length (noteRecords ?idx1) \<noteq> length (noteRecords idx)")
    case False
    with assms(3) have "m' = m\<lparr>index := Some ?idx1\<rparr>"
      by (simp add: invalidate_def load_loaded [OF assms(1)] Let_def)
    moreover from False assms(2) have "tagCountsExact ?idx1"
      by (intro filter_exact_unchanged) simp_all
    ultimately show ?thesis by simp
  next
    case True
    with assms(3) obtain q where
      s: "save env now (m\<lparr>index := Some (rebuildTagCounts ?idx1)\<rparr>) = Inr q" and q: "q = (ops, m')"
      by (auto simp: invalidate_def load_loaded [OF assms(1)] Let_def split: sum.splits)
    from save_index [of env now "m\<lparr>index := Some (rebuildTagCounts ?idx1)\<rparr>" ops m'] s q
    have "index m' = Some ((rebuildTagCounts ?idx1)\<lparr>lastUpdated := now\<rparr>)" by auto
    then show ?thesis
      by (simp add: tagCountsExact_lastUpdated rebuildTagCounts_exact)
  qed
qed

text \<open>
  C2 on the code: \<^verbatim>\<open>update\<close> removes the old record of the path without taking its
  tags out of the counts, and \<^verbatim>\<open>addNoteToIndex\<close> then counts the tags of the new
  record on top. A note tagged \<^verbatim>\<open>test\<close>, rewritten with the tags \<^verbatim>\<open>updated\<close> and
  \<^verbatim>\<open>test\<close> and updated, leaves one record and the count 2 for \<^verbatim>\<open>test\<close>: the
  counts were exact before the call and are not after it.
\<close>

theorem update_leaves_orphaned_tag_count:
  "(case update exEnv 300 exFs exManager ''notes/test-note.md'' of
      Inl e \<Rightarrow> None
    | Inr (m', ops) \<Rightarrow>
        map_option (\<lambda>idx. (map path (noteRecords idx), map tags (noteRecords idx),
                            tagCounts idx ''test'', tagOccurrences idx ''test'',
                            tagCountsExact idx)) (index m'))
   = Some ([''notes/test-note.md''], [ [''updated'', ''test''] ], Some 2, 1, False)
   \<and> tagCountsExact exIndex"
proof -
  have run: "\<exists>m' ops idx. update exEnv 300 exFs exManager ''notes/test-note.md'' = Inr (m', ops)
      \<and> index m' = Some idx \<and> map path (noteRecords idx) = [''notes/test-note.md'']
      \<and> map tags (noteRecords idx) = [ [''updated'', ''test''] ]
      \<and> tagCounts idx ''test'' = Some 2 \<and> tagOccurrences idx ''test'' = 1"
    by (simp add: update_def load_def exManager_def addNoteToIndex_def exFs_def exEnv_def
        exIndex_def exEntry_def join_def save_def toMetadata_def bumpTag_def tagOccurrences_def
        getRelativePath_def normalizeSlashes_def startsWith_def indexPath_def
        NoteMetadata.extend_def IndexEntry.fields_def)
  then obtain m' ops idx where
    u: "update exEnv 300 exFs exManager ''notes/test-note.md'' = Inr (m', ops)"
    and i: "index m' = Some idx"
    and r: "map path (noteRecords idx) = [''notes/test-note.md'']"
           "map tags (noteRecords idx) = [ [''updated'', ''test''] ]"
    and c: "tagCounts idx ''test'' = Some 2" "tagOccurrences idx ''test'' = 1"
    by (elim exE conjE)
  have "\<not> tagCountsExact idx"
  proof
    assume "tagCountsExact idx"
    then have "tagCounts idx ''test'' =
        (if tagOccurrences idx ''test'' = 0 then None else Some (tagOccurrences idx ''test''))"
      unfolding tagCountsExact_def by blast
    with c show False by simp
  qed
  moreover have "tagCountsExact exIndex"
    by (auto simp: tagCountsExact_def exIndex_def exEntry_def tagOccurrences_def)
  ultimately show ?thesis using u i r c by simp
qed

subsection \<open>Staleness\<close>
















subsection \<open>Queries\<close>

lemma mset_insertBy: "mset (insertBy cmp x xs) = add_mset x (mset xs)"
  by (induction xs) auto

lemma mset_sortBy: "mset (sortBy cmp xs) = mset xs"
  by (induction xs) (auto simp: sortBy_def mset_insertBy)

lemma set_sortBy: "set (sortBy cmp xs) = set xs"
  using mset_sortBy [of cmp xs] by (metis set_mset_mset)

lemma hasAllTags_iff: "hasAllTags ts note \<longleftrightarrow> set ts \<subseteq> set (tags note)"
  by (auto simp: hasAllTags_def list_all_iff)

lemma hasSomeTag_iff: "hasSomeTag ts note \<longleftrightarrow> set ts \<inter> set (tags note) \<noteq> {}"
  by (auto simp: hasSomeTag_def list_ex_iff)

lemma tags_truncate: "tags (NoteMetadata.truncate e) = tags e"
  by (simp add: NoteMetadata.truncate_def)

lemma queryArrays_frame:
  assumes "notesRef < nextRef h"
  shows "arrays (snd (queryArrays options notesRef h)) notesRef = arrays h notesRef"
  using assms
  by (auto simp: queryArrays_def alloc_def filterAt_def sortAt_def Let_def
      split: option.splits prod.splits if_splits)

lemma queryArrays_tagsOnly:
  "fst (queryArrays (tagsOnly ts) notesRef h) =
     map NoteMetadata.truncate (sortBy byModifiedDesc (filter (hasAllTags ts) (arrays h notesRef)))"
  by (auto simp: queryArrays_def tagsOnly_def alloc_def filterAt_def sortAt_def Let_def
      hasAllTags_def split: prod.splits)

lemma query_loaded:
  assumes "index m = Some idx"
  shows "\<exists>results. query env now fs m options = Inr (results, m, [])"
proof -
  let ?h = "\<lparr>arrays = (\<lambda>r. [])(0 := noteRecords idx), nextRef = 1\<rparr>"
  have "arrays (snd (queryArrays options 0 ?h)) 0 = arrays ?h 0"
    by (rule queryArrays_frame) simp
  then have same: "arrays (snd (queryArrays options 0 ?h)) 0 = noteRecords idx"
    by simp
  have "m\<lparr>index := Some (idx\<lparr>noteRecords := noteRecords idx\<rparr>)\<rparr> = m"
    using assms by simp
  with same show ?thesis
    by (simp add: query_def load_loaded [OF assms] Let_def case_prod_beta)
qed

text \<open>
  C10: on a loaded index, \<^verbatim>\<open>query\<close> returns with the manager it was called on (the
  same records in the same order, the same tag counts) and performs no file operation,
  whatever the options.
\<close>

theorem query_is_read_only:
  assumes "index m = Some idx"
  shows "\<exists>results. query env now fs m options = Inr (results, m, [])"
  using assms by (rule query_loaded)

lemma query_tagsOnly:
  assumes "index m = Some idx"
  shows "query env now fs m (tagsOnly ts) =
     Inr (map NoteMetadata.truncate (sortBy byModifiedDesc (filter (hasAllTags ts) (noteRecords idx))),
          m, [])"
proof -
  let ?h = "\<lparr>arrays = (\<lambda>r. [])(0 := noteRecords idx), nextRef = 1\<rparr>"
  from query_loaded [OF assms, of env now fs "tagsOnly ts"] obtain results where
    q: "query env now fs m (tagsOnly ts) = Inr (results, m, [])" by blast
  then have "results = fst (queryArrays (tagsOnly ts) 0 ?h)"
    by (simp add: query_def load_loaded [OF assms] Let_def case_prod_beta)
  then show ?thesis
    unfolding q queryArrays_tagsOnly by simp
qed

text \<open>
  C6: on the metadata a scan returns, \<^verbatim>\<open>listByTags\<close> in all-of mode returns exactly
  the records whose tags include every query tag, and in any-of mode exactly the
  records that carry at least one of them, the union over the single tags; each record
  as often as the scan holds it, in any sort order. The tag filter of \<^verbatim>\<open>query\<close>
  returns exactly the records of the index whose tags include every query tag.
\<close>

theorem tag_filter_exact:
  assumes S: "scanZonesMetadata env now fs m (case zs of Some z \<Rightarrow> z | None \<Rightarrow> getDefaultSearchZones)
               = Inr (metadata, m', ops)"
      and L: "index m0 = Some idx"
  shows "\<exists>rAll rAny rQuery.
           listByTags env now fs m ts MatchAll sortOrder zs = Inr (rAll, m', ops)
         \<and> mset rAll = mset (filter (\<lambda>note. set ts \<subseteq> set (tags note)) metadata)
         \<and> listByTags env now fs m ts MatchAny sortOrder zs = Inr (rAny, m', ops)
         \<and> mset rAny = mset (filter (\<lambda>note. set ts \<inter> set (tags note) \<noteq> {}) metadata)
         \<and> set rAny = (\<Union>t \<in> set ts. {note \<in> set metadata. t \<in> set (tags note)})
         \<and> query env now fs m0 (tagsOnly ts) = Inr (rQuery, m0, [])
         \<and> mset rQuery = mset (map NoteMetadata.truncate
                                 (filter (\<lambda>note. set ts \<subseteq> set (tags note)) (noteRecords idx)))"
proof -
  let ?cmp = "case sortOrder of ByCreated \<Rightarrow> byCreatedDesc | ByTitle \<Rightarrow> byTitle env
              | ByModified \<Rightarrow> byModifiedDesc"
  let ?rAll = "sortBy ?cmp (filter (hasAllTags ts) metadata)"
  let ?rAny = "sortBy ?cmp (filter (hasSomeTag ts) metadata)"
  let ?rQ = "map NoteMetadata.truncate (sortBy byModifiedDesc (filter (hasAllTags ts) (noteRecords idx)))"
  have a: "listByTags env now fs m ts MatchAll sortOrder zs = Inr (?rAll, m', ops)"
    using S by (simp add: listByTags_def Let_def)
  have b: "listByTags env now fs m ts MatchAny sortOrder zs = Inr (?rAny, m', ops)"
    using S by (simp add: listByTags_def Let_def)
  have a': "mset ?rAll = mset (filter (\<lambda>note. set ts \<subseteq> set (tags note)) metadata)"
    by (simp add: mset_sortBy hasAllTags_iff [abs_def])
  have b': "mset ?rAny = mset (filter (\<lambda>note. set ts \<inter> set (tags note) \<noteq> {}) metadata)"
    by (simp add: mset_sortBy hasSomeTag_iff [abs_def])
  have b'': "set ?rAny = (\<Union>t \<in> set ts. {note \<in> set metadata. t \<in> set (tags note)})"
    by (auto simp: set_sortBy hasSomeTag_iff)
  have c: "query env now fs m0 (tagsOnly ts) = Inr (?rQ, m0, [])"
    by (rule query_tagsOnly [OF L])
  have c': "mset ?rQ = mset (map NoteMetadata.truncate
                                 (filter (\<lambda>note. set ts \<subseteq> set (tags note)) (noteRecords idx)))"
    by (simp add: mset_sortBy hasAllTags_iff [abs_def])
  from a a' b b' b'' c c' show ?thesis by blast
qed


theorem query_is_read_only_witness:
  "index exManager2 = Some exIndex2
   \<and> query exEnv 0 exFs exManager2 noOptions
       = Inr ([NoteMetadata.truncate exEntryB, NoteMetadata.truncate exEntryA], exManager2, [])
   \<and> map_option noteRecords (index exManager2) = Some [exEntryA, exEntryB]"
proof -
  have i: "index exManager2 = Some exIndex2"
    by (simp add: exManager2_def)
  from query_is_read_only [OF i, of exEnv 0 exFs noOptions] obtain results where
    q: "query exEnv 0 exFs exManager2 noOptions = Inr (results, exManager2, [])"
    by (elim exE)
  have "map_sum id fst (query exEnv 0 exFs exManager2 noOptions)
          = Inr [NoteMetadata.truncate exEntryB, NoteMetadata.truncate exEntryA]"
    by (simp add: query_def load_loaded [OF i] queryArrays_def noOptions_def alloc_def
        sortAt_def sortBy_def byModifiedDesc_def exIndex2_def exEntryA_def exEntryB_def
        Let_def)
  with q have "results = [NoteMetadata.truncate exEntryB, NoteMetadata.truncate exEntryA]"
    by simp
  with q i show ?thesis by (simp add: exIndex2_def)
qed

lemma scan_quiet:
  "scanZonesMetadata exEnv 0 quietFs exManager2 [Notes]
     = Inr ([NoteMetadata.truncate exEntryB, NoteMetadata.truncate exEntryA], exManager2, [])"
proof -
  have i: "index exManager2 = Some exIndex2"
    by (simp add: exManager2_def)
  have s: "isStale exEnv 0 quietFs exManager2 = Inr (False, exManager2)"
    by (simp only: isStale_def load_loaded [OF i])
       (simp add: exIndex2_def indexPath_def join_def
        exManager2_def quietFs_def touch_def exFs_def allZones_def getZonePaths_def
        mdPattern_def)
  from query_loaded [OF i, of exEnv 0 quietFs "zonesOnly [Notes]"] obtain results where
    q: "query exEnv 0 quietFs exManager2 (zonesOnly [Notes]) = Inr (results, exManager2, [])"
    by (elim exE)
  have "map_sum id fst (query exEnv 0 quietFs exManager2 (zonesOnly [Notes]))
          = Inr [NoteMetadata.truncate exEntryB, NoteMetadata.truncate exEntryA]"
    by (simp add: query_def load_loaded [OF i] queryArrays_def zonesOnly_def alloc_def
        filterAt_def inZones_def startsWith_def
        sortAt_def sortBy_def byModifiedDesc_def exIndex2_def exEntryA_def exEntryB_def
        Let_def)
  with q have "results = [NoteMetadata.truncate exEntryB, NoteMetadata.truncate exEntryA]"
    by simp
  with q s show ?thesis
    by (simp add: scanZonesMetadata_def)
qed


theorem tag_filter_exact_witness:
  "scanZonesMetadata exEnv 0 quietFs exManager2
       (case Some [Notes] of Some z \<Rightarrow> z | None \<Rightarrow> getDefaultSearchZones)
     = Inr ([NoteMetadata.truncate exEntryB, NoteMetadata.truncate exEntryA], exManager2, [])
   \<and> index exManager2 = Some exIndex2
   \<and> (\<exists>rAll rAny rQuery.
         listByTags exEnv 0 quietFs exManager2 [''x'', ''y''] MatchAll ByModified (Some [Notes])
           = Inr (rAll, exManager2, [])
       \<and> mset rAll = {#NoteMetadata.truncate exEntryA#}
       \<and> listByTags exEnv 0 quietFs exManager2 [''x'', ''y''] MatchAny ByModified (Some [Notes])
           = Inr (rAny, exManager2, [])
       \<and> mset rAny = {#NoteMetadata.truncate exEntryB, NoteMetadata.truncate exEntryA#}
       \<and> query exEnv 0 quietFs exManager2 (tagsOnly [''x'', ''y'']) = Inr (rQuery, exManager2, [])
       \<and> mset rQuery = {#NoteMetadata.truncate exEntryA#})"
proof -
  have s: "scanZonesMetadata exEnv 0 quietFs exManager2
       (case Some [Notes] of Some z \<Rightarrow> z | None \<Rightarrow> getDefaultSearchZones)
     = Inr ([NoteMetadata.truncate exEntryB, NoteMetadata.truncate exEntryA], exManager2, [])"
    using scan_quiet by simp
  have i: "index exManager2 = Some exIndex2"
    by (simp add: exManager2_def)
  have tA: "tags exEntryA = [''x'', ''y'']" and tB: "tags exEntryB = [''y'']"
    by (simp_all add: exEntryA_def exEntryB_def)
  from tag_filter_exact [OF s i, of "[''x'', ''y'']" ByModified]
  obtain rAll rAny rQuery where
    r: "listByTags exEnv 0 quietFs exManager2 [''x'', ''y''] MatchAll ByModified (Some [Notes])
           = Inr (rAll, exManager2, [])"
       "mset rAll = mset (filter (\<lambda>note. set [''x'', ''y''] \<subseteq> set (tags note))
                      [NoteMetadata.truncate exEntryB, NoteMetadata.truncate exEntryA])"
       "listByTags exEnv 0 quietFs exManager2 [''x'', ''y''] MatchAny ByModified (Some [Notes])
           = Inr (rAny, exManager2, [])"
       "mset rAny = mset (filter (\<lambda>note. set [''x'', ''y''] \<inter> set (tags note) \<noteq> {})
                      [NoteMetadata.truncate exEntryB, NoteMetadata.truncate exEntryA])"
       "query exEnv 0 quietFs exManager2 (tagsOnly [''x'', ''y'']) = Inr (rQuery, exManager2, [])"
       "mset rQuery = mset (map NoteMetadata.truncate
                        (filter (\<lambda>note. set [''x'', ''y''] \<subseteq> set (tags note))
                           (noteRecords exIndex2)))"
    by (elim exE conjE)
  have a: "mset rAll = {#NoteMetadata.truncate exEntryA#}"
    unfolding r(2) by (simp add: tags_truncate tA tB)
  have b: "mset rAny = {#NoteMetadata.truncate exEntryB, NoteMetadata.truncate exEntryA#}"
    unfolding r(4) by (simp add: tags_truncate tA tB)
  have c: "mset rQuery = {#NoteMetadata.truncate exEntryA#}"
    unfolding r(6) by (simp add: exIndex2_def tA tB)
  from s i r(1) a r(3) b r(5) c show ?thesis by blast
qed

subsection \<open>The search loop\<close>







subsection \<open>Scoring\<close>

lemma score_five_words:
  "scoreNoteEnhanced exEnv 10000000000 (exNote ''A B C D E'') (exSearch ''a b c d e'') = Inr (205, [])
 \<and> scoreNoteEnhanced exEnv 10000000000 (exNote ''a b c d e f'') (exSearch ''a b c d e'') = Inr (255, [])"
  by (simp add: scoreNoteEnhanced_def exNote_def exSearch_def requestedTagMatches_def exEnv_def
      contentScore_def titleScore_def wordMatches_def asciiLowerCase_def lowerChar_def
      asciiSplit_def asciiSpace_def startsWith_def getZoneFromPath_def recency_def
      maxAge_def recencyBoost_def exactTitleMatch_def titleWordMatch_def exactTagMatch_def)

lemma length_wordMatches:
  "length (wordMatches env t q) \<le> length (splitWhitespace env q)"
  by (simp add: wordMatches_def)

text \<open>
  Where the order of the two scores comes from, whatever \<^verbatim>\<open>toLowerCase\<close> and the split
  at white space do: for a non-empty query, a note A whose title equals the query up
  to case and a note B that differs from A in its title only, the title of B containing
  the query without being equal to it, A scores 200 for its title and B scores 50 for
  each word of the query that is a word of its title (25 when none is). So A scores
  strictly more than B exactly when fewer than four of the query's words are words of
  B's title.
\<close>

lemma exact_title_score_gap:
  assumes "queryText options = Some q" and "q \<noteq> []"
      and "toLowerCase env (title A) = toLowerCase env q"
      and "B = A\<lparr>title := tB\<rparr>"
      and "toLowerCase env tB \<noteq> toLowerCase env q"
      and "includesStr (toLowerCase env tB) (toLowerCase env q)"
      and "scoreNoteEnhanced env now A options = Inr (sA, mA)"
  shows "\<exists>sB. scoreNoteEnhanced env now B options = Inr (sB, mA)
           \<and> (sB < sA \<longleftrightarrow> length (wordMatches env (toLowerCase env tB) (toLowerCase env q)) < 4)
           \<and> (length (splitWhitespace env (toLowerCase env q)) < 4 \<longrightarrow> sB < sA)"
proof -
  let ?k = "length (wordMatches env (toLowerCase env tB) (toLowerCase env q))"
  have unfolded: "scoreNoteEnhanced env now X options =
      (case contentScore env (content X) (toLowerCase env q) of
         Inl e \<Rightarrow> Inl e
       | Inr fromContent \<Rightarrow>
           Inr (real (length (requestedTagMatches options X)) * exactTagMatch
                + titleScore env (toLowerCase env (title X)) (toLowerCase env q) + fromContent
                + zoneBoost (getZoneFromPath (path X)) + recency now (modified X),
                requestedTagMatches options X))" for X
    by (simp add: scoreNoteEnhanced_def assms(1,2) Let_def)
  obtain fromContent where
    c: "contentScore env (content A) (toLowerCase env q) = Inr fromContent"
    using assms(7) unfolding unfolded [of A]
    by (cases "contentScore env (content A) (toLowerCase env q)") simp_all
  from assms(7) have
    sA: "sA = real (length (requestedTagMatches options A)) * exactTagMatch
              + titleScore env (toLowerCase env (title A)) (toLowerCase env q) + fromContent
              + zoneBoost (getZoneFromPath (path A)) + recency now (modified A)"
    and mA: "mA = requestedTagMatches options A"
    unfolding unfolded [of A] c by auto
  have same: "content B = content A" "path B = path A" "modified B = modified A"
    "requestedTagMatches options B = requestedTagMatches options A" "title B = tB"
    by (simp_all add: assms(4) requestedTagMatches_def split: option.splits)
  let ?sB = "real (length (requestedTagMatches options A)) * exactTagMatch
              + titleScore env (toLowerCase env tB) (toLowerCase env q) + fromContent
              + zoneBoost (getZoneFromPath (path A)) + recency now (modified A)"
  have sB: "scoreNoteEnhanced env now B options = Inr (?sB, mA)"
    unfolding unfolded [of B] same c mA by simp
  have tA: "titleScore env (toLowerCase env (title A)) (toLowerCase env q) = 200"
    by (simp add: titleScore_def assms(3) exactTitleMatch_def)
  have tB: "titleScore env (toLowerCase env tB) (toLowerCase env q)
              = (if ?k > 0 then real ?k * 50 else 25)"
    by (simp add: titleScore_def assms(5,6) titleWordMatch_def)
  have iff: "?sB < sA \<longleftrightarrow> ?k < 4"
    unfolding sA tA tB by auto
  moreover have "length (splitWhitespace env (toLowerCase env q)) < 4 \<longrightarrow> ?k < 4"
    using length_wordMatches [of env "toLowerCase env tB" "toLowerCase env q"] by simp
  ultimately show ?thesis using sB by blast
qed

text \<open>
  C5 on the code: the 200 of an exact title match does not override the word bonuses of
  a longer title. For the query \<^verbatim>\<open>a b c d e\<close>, the note titled \<^verbatim>\<open>A B C D E\<close> (equal to
  the query up to case) scores 205, and the note that differs from it in its title
  only, \<^verbatim>\<open>a b c d e f\<close> (which contains the query and is not equal to it), scores 255:
  each of the five query words is a word of that title and earns 50. The note whose
  title merely contains the query outranks the exact match.
\<close>

theorem longer_title_outranks_exact_title:
  "scoreNoteEnhanced exEnv 10000000000 (exNote ''A B C D E'') (exSearch ''a b c d e'') = Inr (205, [])
 \<and> scoreNoteEnhanced exEnv 10000000000 ((exNote ''A B C D E'')\<lparr>title := ''a b c d e f''\<rparr>)
       (exSearch ''a b c d e'') = Inr (255, [])
 \<and> toLowerCase exEnv ''A B C D E'' = toLowerCase exEnv ''a b c d e''
 \<and> toLowerCase exEnv ''a b c d e f'' \<noteq> toLowerCase exEnv ''a b c d e''
 \<and> includesStr (toLowerCase exEnv ''a b c d e f'') (toLowerCase exEnv ''a b c d e'')"
proof -
  have "(exNote ''A B C D E'')\<lparr>title := ''a b c d e f''\<rparr> = exNote ''a b c d e f''"
    by (simp add: exNote_def)
  moreover have "toLowerCase exEnv ''A B C D E'' = toLowerCase exEnv ''a b c d e''"
    by (simp add: exEnv_def asciiLowerCase_def lowerChar_def)
  moreover have "toLowerCase exEnv ''a b c d e f'' \<noteq> toLowerCase exEnv ''a b c d e''"
    by (simp add: exEnv_def asciiLowerCase_def)
  moreover have "includesStr (toLowerCase exEnv ''a b c d e f'') (toLowerCase exEnv ''a b c d e'')"
    by (simp add: exEnv_def asciiLowerCase_def lowerChar_def startsWith_def)
  ultimately show ?thesis using score_five_words by simp
qed

subsection \<open>The content cache\<close>

text \<open>
  C9, as the claim states it, fails: the cached load is not equivalent to the uncached
  one for a file modified since it was cached. A first load of the example note caches
  it with the file's modification time 200. The file is then rewritten with its
  modification time still 200. The cached load returns the note of the old text and
  leaves the scanner as it is; the uncached load returns the note parsed from the text
  now on disk.
\<close>

theorem loadNote_serves_rewritten_file_from_cache:
  "loadNote exEnv exFs freshScanner ''/base/notes/test-note.md'' True
     = Inr (cachedNote, cachedScanner)
   \<and> stat rewrittenFs ''/base/notes/test-note.md'' = stat exFs ''/base/notes/test-note.md''
   \<and> readFile rewrittenFs ''/base/notes/test-note.md'' = Inr ''Rewritten #other''
   \<and> loadNote exEnv rewrittenFs cachedScanner ''/base/notes/test-note.md'' True
     = Inr (cachedNote, cachedScanner)
   \<and> loadNote exEnv rewrittenFs cachedScanner ''/base/notes/test-note.md'' False
     = Inr (cachedNote\<lparr>content := ''Rewritten #other''\<rparr>,
            cachedScanner\<lparr>cache := [''/base/notes/test-note.md''
                                       \<mapsto> cachedNote\<lparr>content := ''Rewritten #other''\<rparr>]\<rparr>)
   \<and> content cachedNote = ''New content #updated #test''"
  by (simp add: loadNote_def readAndParse_def freshScanner_def cachedScanner_def cachedNote_def
      rewrittenFs_def exFs_def exEnv_def exManager_def normalizeSlashes_def)

text \<open>
  C9, amended: for a path with a cache entry and a non-zero time stamp, \<^verbatim>\<open>loadNote\<close>
  with the cache enabled follows the file's modification time and nothing else. When
  that time is not newer than the stamp, it returns the cached note without reading the
  file and leaves the scanner as it is, whatever the file now holds. When that time is
  newer than the stamp, it does what the uncached load does: it returns the note
  parsed from the text now on disk and stores that note with the file's modification
  time, so that the next cached load, while the modification time stays the same,
  returns that same note.
\<close>

theorem loadNote_cache_follows_mtime:
  assumes "cache sc filePath = Some cached"
      and "cacheTimestamps sc filePath = Some cacheTime"
      and "cacheTime \<noteq> 0"
      and "stat fs filePath = Inr fileStats"
  shows "(mtimeMs fileStats \<le> cacheTime \<longrightarrow> loadNote env fs sc filePath True = Inr (cached, sc))
       \<and> (mtimeMs fileStats > cacheTime \<longrightarrow>
            loadNote env fs sc filePath True = loadNote env fs sc filePath False
          \<and> (\<forall>body nt.
               readFile fs filePath = Inr body
               \<and> parse env (normalizeSlashes (relative env (basePath (indexManager sc)) filePath))
                    body \<lfloor>birthtimeMs fileStats\<rfloor> \<lfloor>mtimeMs fileStats\<rfloor> = Inr nt \<longrightarrow>
               loadNote env fs sc filePath True
                 = Inr (nt, sc\<lparr>cache := (cache sc)(filePath \<mapsto> nt),
                               cacheTimestamps := (cacheTimestamps sc)(filePath \<mapsto> mtimeMs fileStats)\<rparr>)
             \<and> (\<forall>fs'. mtimeMs fileStats \<noteq> 0 \<and> stat fs' filePath = Inr fileStats \<longrightarrow>
                  loadNote env fs'
                    (sc\<lparr>cache := (cache sc)(filePath \<mapsto> nt),
                         cacheTimestamps := (cacheTimestamps sc)(filePath \<mapsto> mtimeMs fileStats)\<rparr>)
                    filePath True
                  = Inr (nt, sc\<lparr>cache := (cache sc)(filePath \<mapsto> nt),
                                 cacheTimestamps := (cacheTimestamps sc)(filePath \<mapsto> mtimeMs fileStats)\<rparr>))))"
proof (intro conjI impI allI)
  assume "mtimeMs fileStats \<le> cacheTime"
  with assms show "loadNote env fs sc filePath True = Inr (cached, sc)"
    by (simp add: loadNote_def)
next
  assume "mtimeMs fileStats > cacheTime"
  with assms show "loadNote env fs sc filePath True = loadNote env fs sc filePath False"
    by (simp add: loadNote_def)
next
  fix body nt
  assume "mtimeMs fileStats > cacheTime"
    and "readFile fs filePath = Inr body
       \<and> parse env (normalizeSlashes (relative env (basePath (indexManager sc)) filePath))
            body \<lfloor>birthtimeMs fileStats\<rfloor> \<lfloor>mtimeMs fileStats\<rfloor> = Inr nt"
  with assms show "loadNote env fs sc filePath True
      = Inr (nt, sc\<lparr>cache := (cache sc)(filePath \<mapsto> nt),
                    cacheTimestamps := (cacheTimestamps sc)(filePath \<mapsto> mtimeMs fileStats)\<rparr>)"
    by (simp add: loadNote_def readAndParse_def)
next
  fix body nt and fs' :: FileSystem
  assume "mtimeMs fileStats \<noteq> 0 \<and> stat fs' filePath = Inr fileStats"
  then show "loadNote env fs'
        (sc\<lparr>cache := (cache sc)(filePath \<mapsto> nt),
             cacheTimestamps := (cacheTimestamps sc)(filePath \<mapsto> mtimeMs fileStats)\<rparr>)
        filePath True
      = Inr (nt, sc\<lparr>cache := (cache sc)(filePath \<mapsto> nt),
                     cacheTimestamps := (cacheTimestamps sc)(filePath \<mapsto> mtimeMs fileStats)\<rparr>)"
    by (simp add: loadNote_def)
qed

theorem loadNote_cache_follows_mtime_witness:
  "cache exScanner ''/base/notes/test-note.md'' = Some (exNote ''Stale Title'')
   \<and> cacheTimestamps exScanner ''/base/notes/test-note.md'' = Some 100
   \<and> stat quietFs ''/base/notes/test-note.md'' = Inr \<lparr>mtimeMs = 100, birthtimeMs = 100\<rparr>
   \<and> readFile quietFs ''/base/notes/test-note.md'' = Inr ''New content #updated #test''
   \<and> loadNote exEnv quietFs exScanner ''/base/notes/test-note.md'' True
       = Inr (exNote ''Stale Title'', exScanner)
   \<and> stat exFs ''/base/notes/test-note.md'' = Inr \<lparr>mtimeMs = 200, birthtimeMs = 100\<rparr>
   \<and> readFile exFs ''/base/notes/test-note.md'' = Inr ''New content #updated #test''
   \<and> loadNote exEnv exFs exScanner ''/base/notes/test-note.md'' True
       = Inr (cachedNote, cachedScanner)
   \<and> loadNote exEnv exFs exScanner ''/base/notes/test-note.md'' False
       = Inr (cachedNote, cachedScanner)
   \<and> loadNote exEnv rewrittenFs cachedScanner ''/base/notes/test-note.md'' True
       = Inr (cachedNote, cachedScanner)"
proof -
  have a: "cache exScanner ''/base/notes/test-note.md'' = Some (exNote ''Stale Title'')"
    and b: "cacheTimestamps exScanner ''/base/notes/test-note.md'' = Some 100"
    by (simp_all add: exScanner_def)
  have z: "(100::real) \<noteq> 0" by simp
  have q: "stat quietFs ''/base/notes/test-note.md'' = Inr \<lparr>mtimeMs = 100, birthtimeMs = 100\<rparr>"
    by (simp add: quietFs_def touch_def exFs_def)
  have qr: "readFile quietFs ''/base/notes/test-note.md'' = Inr ''New content #updated #test''"
    by (simp add: quietFs_def touch_def exFs_def)
  have c: "stat exFs ''/base/notes/test-note.md'' = Inr \<lparr>mtimeMs = 200, birthtimeMs = 100\<rparr>"
    by (simp add: exFs_def)
  have r: "readFile exFs ''/base/notes/test-note.md'' = Inr ''New content #updated #test''"
    by (simp add: exFs_def)
  have c': "stat rewrittenFs ''/base/notes/test-note.md'' = Inr \<lparr>mtimeMs = 200, birthtimeMs = 100\<rparr>"
    by (simp add: rewrittenFs_def exFs_def)
  have p: "parse exEnv (normalizeSlashes (relative exEnv (basePath (indexManager exScanner))
                ''/base/notes/test-note.md''))
             ''New content #updated #test''
             \<lfloor>birthtimeMs \<lparr>mtimeMs = 200, birthtimeMs = 100\<rparr>\<rfloor>
             \<lfloor>mtimeMs \<lparr>mtimeMs = 200, birthtimeMs = 100\<rparr>\<rfloor> = Inr cachedNote"
    by (simp add: exEnv_def exScanner_def exManager_def normalizeSlashes_def cachedNote_def)
  have s: "exScanner\<lparr>cache := (cache exScanner)(''/base/notes/test-note.md'' \<mapsto> cachedNote),
             cacheTimestamps := (cacheTimestamps exScanner)(''/base/notes/test-note.md''
                \<mapsto> 200)\<rparr> = cachedScanner"
    by (simp add: exScanner_def cachedScanner_def)
  from loadNote_cache_follows_mtime [OF a b z q, of exEnv]
  have hit: "loadNote exEnv quietFs exScanner ''/base/notes/test-note.md'' True
               = Inr (exNote ''Stale Title'', exScanner)"
    by simp
  from loadNote_cache_follows_mtime [OF a b z c, of exEnv] r p
  have miss: "loadNote exEnv exFs exScanner ''/base/notes/test-note.md'' True
                = loadNote exEnv exFs exScanner ''/base/notes/test-note.md'' False
      \<and> loadNote exEnv exFs exScanner ''/base/notes/test-note.md'' True
                = Inr (cachedNote, cachedScanner)
      \<and> loadNote exEnv rewrittenFs cachedScanner ''/base/notes/test-note.md'' True
                = Inr (cachedNote, cachedScanner)"
    using c' by (auto simp add: s)
  with a b q qr hit c r show ?thesis by auto
qed

end
